theory Spec2Isabelle
  imports Main "HOL-Library.Word"
begin

unbundle bit_operations_syntax

section \<open>Strings\<close>

text \<open>
  \<open>std::string\<close> is a byte string: \<open>string\<close>. \<open>absl::StartsWith\<close> compares the first
  \<open>prefix.size()\<close> bytes; \<open>std::string::find(ch, pos)\<close> returns the first index at or
  after \<open>pos\<close> holding \<open>ch\<close>, or \<open>npos\<close> (here \<open>None\<close>); \<open>substr(pos, n)\<close> and
  \<open>substr(pos)\<close> copy from \<open>pos\<close>. \<open>substr\<close> throws \<open>std::out_of_range\<close> when
  \<open>pos > size()\<close>; its only caller, \<open>extractTrustDomain\<close>, calls it with the length of a
  prefix the string starts with (lemma \<open>StartsWith_length\<close> below), so that branch is not
  part of the model.
\<close>

definition StartsWith :: "string \<Rightarrow> string \<Rightarrow> bool" where
  "StartsWith text pre = (length pre \<le> length text \<and> take (length pre) text = pre)"

definition string_find :: "string \<Rightarrow> char \<Rightarrow> nat \<Rightarrow> nat option" where
  "string_find s c pos =
     (case dropWhile (\<lambda>x. x \<noteq> c) (drop pos s) of
        [] \<Rightarrow> None
      | _ # _ \<Rightarrow> Some (pos + length (takeWhile (\<lambda>x. x \<noteq> c) (drop pos s))))"

definition substr :: "string \<Rightarrow> nat \<Rightarrow> nat \<Rightarrow> string" where
  "substr s pos n = take n (drop pos s)"

definition substr_from :: "string \<Rightarrow> nat \<Rightarrow> string" where
  "substr_from s pos = drop pos s"

text \<open>
  A \<open>const char*\<close> read as a string ends at the first NUL byte: \<open>loadTrustBundleMap\<close>
  reads a URI through \<open>ASN1_STRING_get0_data\<close> that way.
\<close>

definition c_str :: "string \<Rightarrow> string" where
  "c_str data = takeWhile (\<lambda>ch. ch \<noteq> CHR 0x00) data"

definition spiffe_prefix :: string where
  "spiffe_prefix = ''spiffe://''"

text \<open>\<open>SPIFFEValidator::extractTrustDomain\<close>.\<close>

definition extractTrustDomain :: "string \<Rightarrow> string" where
  "extractTrustDomain san =
     (if \<not> StartsWith san spiffe_prefix then ''''
      else (case string_find san CHR ''/'' (length spiffe_prefix) of
              None \<Rightarrow> substr_from san (length spiffe_prefix)
            | Some pos \<Rightarrow> substr san (length spiffe_prefix) (pos - length spiffe_prefix)))"

section \<open>Certificates and trust snapshots\<close>

datatype gen_type =
  GEN_OTHERNAME | GEN_EMAIL | GEN_DNS | GEN_X400 | GEN_DIRNAME | GEN_EDIPARTY
  | GEN_URI | GEN_IPADD | GEN_RID

text \<open>A \<open>GENERAL_NAME\<close>: its \<open>type\<close> tag and the bytes of its ASN.1 string.\<close>

record GENERAL_NAME =
  name_type :: gen_type
  name_data :: string

text \<open>
  What the validator reads of an \<open>X509\<close>: the subject, the value of
  \<open>X509_get_extension_flags\<close>, the value of \<open>X509_get_key_usage\<close>, and the result of
  \<open>X509_get_ext_d2i(cert, NID_subject_alt_name, ..)\<close> (\<open>None\<close> is the null pointer).
\<close>

record X509 =
  subject_name :: string
  extension_flags :: "32 word"
  key_usage :: "32 word"
  subject_alt_name :: "GENERAL_NAME list option"

type_synonym X509_CRL = string

definition EXFLAG_CA :: "32 word" where
  "EXFLAG_CA = 0x10"

definition KU_KEY_CERT_SIGN :: "32 word" where
  "KU_KEY_CERT_SIGN = 0x0004"

definition KU_CRL_SIGN :: "32 word" where
  "KU_CRL_SIGN = 0x0002"

definition X509_V_FLAG_CRL_CHECK :: "32 word" where
  "X509_V_FLAG_CRL_CHECK = 0x4"

definition X509_V_FLAG_CRL_CHECK_ALL :: "32 word" where
  "X509_V_FLAG_CRL_CHECK_ALL = 0x8"

text \<open>\<open>struct SpiffeData\<close>; \<open>'s\<close> is the library's \<open>X509_STORE\<close>.\<close>

record 's SpiffeData =
  trust_bundle_stores :: "string \<rightharpoonup> 's"
  ca_certs :: "X509 list"
  spiffe_refresh_hint :: "64 word"
  spiffe_sequence :: "64 word"

definition new_SpiffeData :: "'s SpiffeData" where
  "new_SpiffeData =
     \<lparr>trust_bundle_stores = Map.empty, ca_certs = [],
      spiffe_refresh_hint = 0, spiffe_sequence = 0\<rparr>"

record SslStats =
  fail_verify_error :: "64 word"
  fail_verify_san :: "64 word"

datatype ValidationStatus = Status_Pending | Status_Successful | Status_Failed

datatype ClientValidationStatus =
  Client_NotValidated | Client_NoClientCertificate | Client_Validated | Client_Failed

record ValidationResults =
  status :: ValidationStatus
  detailed_status :: ClientValidationStatus
  tls_alert :: "8 word option"
  error_details :: "string option"

section \<open>Configuration and the bundle-map document\<close>

record DataSource =
  ds_filename :: string
  ds_inline :: string

record TrustDomain =
  td_name :: string
  td_trust_bundle :: DataSource

record SPIFFECertValidatorConfig =
  trust_domains :: "TrustDomain list"
  trust_bundle_map :: "DataSource option"

datatype SanType = SAN_TYPE_UNSPECIFIED | EMAIL | DNS | URI | IP_ADDRESS | OTHER_NAME

record SubjectAltNameMatcher =
  san_type :: SanType
  san_matcher :: string

text \<open>
  The validation-context configuration; \<open>customValidatorConfig\<close> holds the
  \<open>SPIFFECertValidatorConfig\<close> message that \<open>translateOpaqueConfig\<close> decodes.
\<close>

record CertificateValidationContextConfig =
  allowExpiredCertificate :: bool
  subjectAltNameMatchers :: "SubjectAltNameMatcher list"
  customValidatorConfig :: SPIFFECertValidatorConfig

record X509_INFO =
  info_x509 :: "X509 option"
  info_crl :: "X509_CRL option"

text \<open>
  The bundle-map document as \<open>loadTrustBundleMap\<close> reads it through the JSON accessors:
  \<open>{"trust_domains": {domain: {"keys": [{"use": .., "x5c": [..]}]}}}\<close>. The fields of
  \<open>trust_domains\<close> are the pairs \<open>iterate\<close> visits, in its order. \<open>None\<close> for
  \<open>trust_domains\<close> is the null object. Opening the file and parsing it are the first
  two steps of the function: they fail, or give the document. The type holds the
  documents in which every domain object has its \<open>keys\<close> array and every key object its
  \<open>use\<close> string and \<open>x5c\<close> array; on a document without one of them the accessor
  throws, and the function returns nothing at all.
\<close>

record json_key =
  key_use :: string
  key_x5c :: "string list"

record json_domain =
  domain_keys :: "json_key list"

record json_bundle =
  json_trust_domains :: "(string \<times> json_domain) list option"

datatype bundle_file = FileOpenFailed | JsonParseFailed | JsonParsed json_bundle

section \<open>External collaborators\<close>

record ('s, 'p) X509_STORE_CTX =
  ctx_store :: 's
  ctx_cert :: X509
  ctx_chain :: "X509 list"
  ctx_param :: 'p
  ctx_ignore_expiration :: bool

text \<open>
  The functions the validator calls and that are defined outside its two files: the
  cryptographic library, the base64 decoder, the data-source reader, the SAN-matcher
  factory, the time-dependent expiration helper and the file watcher. They are
  parameters of the model. \<open>X509_STORE_add_cert\<close> gives whether it returned 1 and the
  store afterwards; \<open>DataSource_read\<close> gives the error status' message or the bytes;
  \<open>addWatch\<close> gives the error status' message, or \<open>None\<close> for \<open>OkStatus\<close>.
\<close>

record ('s, 'p) collaborators =
  Base64_decode :: "string \<Rightarrow> string"
  d2i_X509 :: "string \<Rightarrow> X509 option"
  X509_STORE_new :: 's
  X509_STORE_add_cert :: "'s \<Rightarrow> X509 \<Rightarrow> bool \<times> 's"
  X509_STORE_add_crl :: "'s \<Rightarrow> X509_CRL \<Rightarrow> 's"
  X509_STORE_set_flags :: "'s \<Rightarrow> 32 word \<Rightarrow> 's"
  X509_STORE_CTX_init :: "'s \<Rightarrow> X509 \<Rightarrow> X509 list \<Rightarrow> bool"
  X509_VERIFY_PARAM_set1 :: "'p \<Rightarrow> bool"
  X509_verify_cert :: "('s, 'p) X509_STORE_CTX \<Rightarrow> bool"
  getX509VerificationErrorInfo :: "('s, 'p) X509_STORE_CTX \<Rightarrow> string"
  generalNameAsString :: "GENERAL_NAME \<Rightarrow> string"
  getDaysUntilExpiration :: "X509 \<Rightarrow> 32 word option"
  DataSource_read :: "DataSource \<Rightarrow> string + string"
  PEM_X509_INFO_read_bio :: "string \<Rightarrow> X509_INFO list option"
  createStringSanMatcher :: "SubjectAltNameMatcher \<Rightarrow> GENERAL_NAME \<Rightarrow> bool"
  addWatch :: "string \<Rightarrow> string option"

section \<open>The validator\<close>

text \<open>
  The members of \<open>SPIFFEValidator\<close>. \<open>tls\<close> gives, for each worker thread, the snapshot
  its thread-local slot holds; \<open>main_thread_dispatcher\<close> holds the updates posted to the
  main-thread dispatcher and not yet run, oldest first, each by the snapshot its closure
  carries; \<open>file_watcher\<close> is the watched path once a watch is installed; \<open>stats\<close> are
  the counters the validator increments.
\<close>

record 's SPIFFEValidator =
  allow_expired_certificate :: bool
  tls :: "nat \<Rightarrow> 's SpiffeData"
  ca_file_name :: string
  trust_bundle_file_name :: string
  spiffe_data :: "'s SpiffeData"
  subject_alt_name_matchers :: "(GENERAL_NAME \<Rightarrow> bool) list"
  main_thread_dispatcher :: "'s SpiffeData list"
  file_watcher :: "string option"
  stats :: SslStats

datatype EnvoyException = EnvoyException string

subsection \<open>Loading a bundle map\<close>

text \<open>
  The loop over the SAN entries of one certificate (source lines 109 to 132): the first
  \<open>GEN_URI\<close> entry that starts with \<open>spiffe://\<close> decides, and ends the loop. \<open>None\<close> is
  \<open>error = true; return false\<close>. \<open>trust_bundle_stores[domain_name]\<close> finds the store the
  callback registered on entry; on a missing key \<open>operator[]\<close> would insert a null store,
  which cannot take a certificate: the load fails.
\<close>

fun scan_san_names ::
  "('s, 'p) collaborators \<Rightarrow> string \<Rightarrow> X509 \<Rightarrow> 's SpiffeData \<Rightarrow> GENERAL_NAME list
    \<Rightarrow> 's SpiffeData option" where
  "scan_san_names c domain_name x509 data [] = Some data"
| "scan_san_names c domain_name x509 data (current_name # rest) =
     (if name_type current_name = GEN_URI then
        (let uri = c_str (name_data current_name) in
         if StartsWith uri ''spiffe://'' then
           (let san_domain = extractTrustDomain uri in
            if domain_name \<noteq> san_domain then None
            else (case trust_bundle_stores data domain_name of
                    None \<Rightarrow> None
                  | Some store \<Rightarrow>
                      (case X509_STORE_add_cert c store x509 of
                         (ok, store') \<Rightarrow>
                           if \<not> ok then None
                           else Some (data\<lparr>trust_bundle_stores :=
                                             (trust_bundle_stores data)(domain_name \<mapsto> store'),
                                           ca_certs := ca_certs data @ [x509]\<rparr>))))
         else scan_san_names c domain_name x509 data rest)
      else scan_san_names c domain_name x509 data rest)"

text \<open>One entry of \<open>x5c\<close> (source lines 92 to 134).\<close>

definition load_cert ::
  "('s, 'p) collaborators \<Rightarrow> string \<Rightarrow> 's SpiffeData \<Rightarrow> string \<Rightarrow> 's SpiffeData option" where
  "load_cert c domain_name data cert =
     (let decoded_cert = Base64_decode c cert in
      if decoded_cert = [] then None
      else (case d2i_X509 c decoded_cert of
              None \<Rightarrow> None
            | Some x509 \<Rightarrow>
                (case subject_alt_name x509 of
                   None \<Rightarrow> Some data
                 | Some san_names \<Rightarrow> scan_san_names c domain_name x509 data san_names)))"

fun load_certs ::
  "('s, 'p) collaborators \<Rightarrow> string \<Rightarrow> 's SpiffeData \<Rightarrow> string list \<Rightarrow> 's SpiffeData option" where
  "load_certs c domain_name data [] = Some data"
| "load_certs c domain_name data (cert # certs) =
     (case load_cert c domain_name data cert of
        None \<Rightarrow> None
      | Some data' \<Rightarrow> load_certs c domain_name data' certs)"

fun load_keys ::
  "('s, 'p) collaborators \<Rightarrow> string \<Rightarrow> 's SpiffeData \<Rightarrow> json_key list \<Rightarrow> 's SpiffeData option" where
  "load_keys c domain_name data [] = Some data"
| "load_keys c domain_name data (key # keys) =
     (if key_use key = ''x509-svid'' then
        (case load_certs c domain_name data (key_x5c key) of
           None \<Rightarrow> None
         | Some data' \<Rightarrow> load_keys c domain_name data' keys)
      else load_keys c domain_name data keys)"

text \<open>The callback given to \<open>iterate\<close>, for one field of \<open>trust_domains\<close>.\<close>

definition load_domain ::
  "('s, 'p) collaborators \<Rightarrow> 's SpiffeData \<Rightarrow> string \<Rightarrow> json_domain \<Rightarrow> 's SpiffeData option" where
  "load_domain c data domain_name domain_object =
     (let data1 =
            (if trust_bundle_stores data domain_name \<noteq> None then data
             else data\<lparr>trust_bundle_stores :=
                         (trust_bundle_stores data)(domain_name \<mapsto> X509_STORE_new c)\<rparr>);
          keys = domain_keys domain_object
      in if keys = [] then None else load_keys c domain_name data1 keys)"

text \<open>\<open>iterate\<close>: the callback on each field in turn, stopping when it returns false.\<close>

fun iterate_domains ::
  "('s, 'p) collaborators \<Rightarrow> 's SpiffeData \<Rightarrow> (string \<times> json_domain) list
    \<Rightarrow> 's SpiffeData option" where
  "iterate_domains c data [] = Some data"
| "iterate_domains c data ((domain_name, domain_object) # rest) =
     (case load_domain c data domain_name domain_object of
        None \<Rightarrow> None
      | Some data' \<Rightarrow> iterate_domains c data' rest)"

text \<open>
  \<open>SPIFFEValidator::loadTrustBundleMap\<close>. \<open>fs\<close> gives, for a file name, what opening,
  reading and parsing that file yields now. \<open>None\<close> is the null pointer.
\<close>

definition loadTrustBundleMap ::
  "('s, 'p) collaborators \<Rightarrow> (string \<Rightarrow> bundle_file) \<Rightarrow> string \<Rightarrow> 's SpiffeData option" where
  "loadTrustBundleMap c fs file_name =
     (case fs file_name of
        FileOpenFailed \<Rightarrow> None
      | JsonParseFailed \<Rightarrow> None
      | JsonParsed parsed_json_bundle \<Rightarrow>
          (case json_trust_domains parsed_json_bundle of
             None \<Rightarrow> None
           | Some domains \<Rightarrow>
               if domains = [] then None
               else iterate_domains c new_SpiffeData domains))"

text \<open>
  \<open>updateSpiffeData\<close> runs \<open>updateSpiffeData\<close> of the thread-local state on all
  threads: every slot gets the new snapshot.
\<close>

definition updateSpiffeData :: "'s SPIFFEValidator \<Rightarrow> 's SpiffeData \<Rightarrow> 's SPIFFEValidator" where
  "updateSpiffeData v new_spiffe_data = v\<lparr>tls := (\<lambda>thread. new_spiffe_data)\<rparr>"

text \<open>
  \<open>updateSpiffeDataAsync\<close> only posts a closure to the main-thread dispatcher: when it
  returns, every slot holds what it held. \<open>run_posted_update\<close> is the dispatcher running
  the oldest posted closure, which updates all threads as \<open>updateSpiffeData\<close> does.
\<close>

definition updateSpiffeDataAsync :: "'s SPIFFEValidator \<Rightarrow> 's SpiffeData \<Rightarrow> 's SPIFFEValidator" where
  "updateSpiffeDataAsync v new_spiffe_data =
     v\<lparr>main_thread_dispatcher := main_thread_dispatcher v @ [new_spiffe_data]\<rparr>"

definition run_posted_update :: "'s SPIFFEValidator \<Rightarrow> 's SPIFFEValidator" where
  "run_posted_update v =
     (case main_thread_dispatcher v of
        [] \<Rightarrow> v
      | new_spiffe_data # posted \<Rightarrow>
          v\<lparr>tls := (\<lambda>thread. new_spiffe_data), main_thread_dispatcher := posted\<rparr>)"

text \<open>The callback \<open>initializeCertificateRefresh\<close> registers for the Modified event.\<close>

definition on_file_modified ::
  "('s, 'p) collaborators \<Rightarrow> (string \<Rightarrow> bundle_file) \<Rightarrow> 's SPIFFEValidator \<Rightarrow> 's SPIFFEValidator" where
  "on_file_modified c fs v =
     (case loadTrustBundleMap c fs (trust_bundle_file_name v) of
        Some new_trust_bundle \<Rightarrow> updateSpiffeDataAsync v new_trust_bundle
      | None \<Rightarrow> v)"

text \<open>
  \<open>initializeCertificateRefresh\<close>: the watch is added or, through \<open>THROW_IF_NOT_OK\<close>, the
  error status is thrown.
\<close>

definition initializeCertificateRefresh ::
  "('s, 'p) collaborators \<Rightarrow> 's SPIFFEValidator \<Rightarrow> EnvoyException + 's SPIFFEValidator" where
  "initializeCertificateRefresh c v =
     (case addWatch c (trust_bundle_file_name v) of
        Some msg \<Rightarrow> Inl (EnvoyException msg)
      | None \<Rightarrow> Inr (v\<lparr>file_watcher := Some (trust_bundle_file_name v)\<rparr>))"

subsection \<open>Construction\<close>

text \<open>
  The loop over the entries of one PEM bundle (source lines 238 to 259). The state is the
  store, \<open>ca_certs\<close>, \<open>has_crl\<close>, \<open>ca_loaded\<close> and \<open>ca_file_name_\<close>. The return value of
  \<open>X509_STORE_add_cert\<close> is not looked at here.
\<close>

fun load_items ::
  "('s, 'p) collaborators \<Rightarrow> TrustDomain \<Rightarrow> X509_INFO list
    \<Rightarrow> 's \<times> X509 list \<times> bool \<times> bool \<times> string \<Rightarrow> 's \<times> X509 list \<times> bool \<times> bool \<times> string" where
  "load_items c domain [] acc = acc"
| "load_items c domain (item # items) (store, cas, has_crl, ca_loaded, ca_file) =
     (let (store1, cas1, ca_loaded1, ca_file1) =
            (case info_x509 item of
               None \<Rightarrow> (store, cas, ca_loaded, ca_file)
             | Some x509 \<Rightarrow>
                 (snd (X509_STORE_add_cert c store x509), cas @ [x509], True,
                  if \<not> ca_loaded then
                    td_name domain @ '': '' @
                      (if ds_filename (td_trust_bundle domain) = [] then ''<inline>''
                       else ds_filename (td_trust_bundle domain))
                  else ca_file));
          (store2, has_crl2) =
            (case info_crl item of
               None \<Rightarrow> (store1, has_crl)
             | Some crl \<Rightarrow> (X509_STORE_add_crl c store1 crl, True))
      in load_items c domain items (store2, cas1, has_crl2, ca_loaded1, ca_file1))"

text \<open>
  The loop over \<open>message.trust_domains()\<close> (source lines 218 to 264); \<open>Inl\<close> is the
  exception thrown.
\<close>

fun load_trust_domains ::
  "('s, 'p) collaborators \<Rightarrow> 's SpiffeData \<Rightarrow> string \<Rightarrow> TrustDomain list
    \<Rightarrow> EnvoyException + 's SpiffeData \<times> string" where
  "load_trust_domains c data ca_file [] = Inr (data, ca_file)"
| "load_trust_domains c data ca_file (domain # rest) =
     (if trust_bundle_stores data (td_name domain) \<noteq> None then
        Inl (EnvoyException
              (''Multiple trust bundles are given for one trust domain for '' @ td_name domain))
      else
        (case DataSource_read c (td_trust_bundle domain) of
           Inl msg \<Rightarrow> Inl (EnvoyException msg)
         | Inr cert \<Rightarrow>
             (case PEM_X509_INFO_read_bio c cert of
                None \<Rightarrow>
                  Inl (EnvoyException
                        (''Failed to load trusted CA certificate for '' @ td_name domain))
              | Some list \<Rightarrow>
                  if list = [] then
                    Inl (EnvoyException
                          (''Failed to load trusted CA certificate for '' @ td_name domain))
                  else
                    (case load_items c domain list
                            (X509_STORE_new c, ca_certs data, False, False, ca_file) of
                       (store, cas, has_crl, ca_loaded, ca_file') \<Rightarrow>
                         load_trust_domains c
                           (data\<lparr>trust_bundle_stores :=
                                    (trust_bundle_stores data)
                                      (td_name domain \<mapsto>
                                        (if has_crl then
                                           X509_STORE_set_flags c store
                                             (X509_V_FLAG_CRL_CHECK OR X509_V_FLAG_CRL_CHECK_ALL)
                                         else store)),
                                  ca_certs := cas\<rparr>)
                           ca_file' rest))))"

text \<open>
  The constructor \<open>SPIFFEValidator(config, stats, context)\<close>: \<open>Inl\<close> is the exception
  that ends it, \<open>Inr\<close> the validator constructed.
\<close>

definition SPIFFEValidator_ctor ::
  "('s, 'p) collaborators \<Rightarrow> (string \<Rightarrow> bundle_file) \<Rightarrow> CertificateValidationContextConfig
    \<Rightarrow> SslStats \<Rightarrow> EnvoyException + 's SPIFFEValidator" where
  "SPIFFEValidator_ctor c fs config stats0 =
     (let message = customValidatorConfig config;
          matchers = map (createStringSanMatcher c)
                       (filter (\<lambda>matcher. san_type matcher = URI) (subjectAltNameMatchers config));
          n_trust_domains = length (trust_domains message);
          v0 = \<lparr>allow_expired_certificate = allowExpiredCertificate config,
                tls = (\<lambda>thread. new_SpiffeData),
                ca_file_name = '''',
                trust_bundle_file_name = '''',
                spiffe_data = new_SpiffeData,
                subject_alt_name_matchers = matchers,
                main_thread_dispatcher = [],
                file_watcher = None,
                stats = stats0\<rparr>
      in if trust_bundle_map message \<noteq> None \<and> n_trust_domains > 0 then
           Inl (EnvoyException ''Cannot configure both trust_domains and trust_bundle_map...'')
         else
           (case trust_bundle_map message of
              Some bundle_map \<Rightarrow>
                (case loadTrustBundleMap c fs (ds_filename bundle_map) of
                   None \<Rightarrow> Inl (EnvoyException ''Failed to load SPIFFE Bundle map'')
                 | Some loaded \<Rightarrow>
                     initializeCertificateRefresh c
                       (updateSpiffeData
                          (v0\<lparr>trust_bundle_file_name := ds_filename bundle_map,
                              spiffe_data := loaded\<rparr>)
                          loaded))
            | None \<Rightarrow>
                (case load_trust_domains c new_SpiffeData '''' (trust_domains message) of
                   Inl e \<Rightarrow> Inl e
                 | Inr (loaded, ca_file) \<Rightarrow>
                     Inr (updateSpiffeData
                            (v0\<lparr>spiffe_data := loaded, ca_file_name := ca_file\<rparr>)
                            loaded))))"

subsection \<open>Verification\<close>

text \<open>\<open>SPIFFEValidator::certificatePrecheck\<close>.\<close>

definition certificatePrecheck :: "X509 \<Rightarrow> bool" where
  "certificatePrecheck leaf_cert =
     (let ext = extension_flags leaf_cert in
      if ext AND EXFLAG_CA \<noteq> 0 then False
      else (let us = key_usage leaf_cert in
            us AND (KU_CRL_SIGN OR KU_KEY_CERT_SIGN) = 0))"

text \<open>
  The loop of \<open>getTrustBundleStore\<close> (source lines 387 to 397): the value of
  \<open>trust_domain\<close> after it. Entries that are not \<open>GEN_URI\<close> are passed over; the first
  \<open>GEN_URI\<close> entry sets \<open>trust_domain\<close> and ends the loop.
\<close>

fun san_trust_domain :: "('s, 'p) collaborators \<Rightarrow> GENERAL_NAME list \<Rightarrow> string" where
  "san_trust_domain c [] = ''''"
| "san_trust_domain c (general_name # rest) =
     (if name_type general_name \<noteq> GEN_URI then san_trust_domain c rest
      else extractTrustDomain (generalNameAsString c general_name))"

text \<open>
  \<open>SPIFFEValidator::getTrustBundleStore\<close>, called on worker \<open>thread\<close>; \<open>None\<close> is the null
  pointer.
\<close>

definition getTrustBundleStore ::
  "('s, 'p) collaborators \<Rightarrow> 's SPIFFEValidator \<Rightarrow> nat \<Rightarrow> X509 \<Rightarrow> 's option" where
  "getTrustBundleStore c v thread leaf_cert =
     (case subject_alt_name leaf_cert of
        None \<Rightarrow> None
      | Some san_names \<Rightarrow>
          (let trust_domain = san_trust_domain c san_names in
           if trust_domain = [] then None
           else trust_bundle_stores (tls v thread) trust_domain))"

fun match_any_matcher :: "(GENERAL_NAME \<Rightarrow> bool) list \<Rightarrow> GENERAL_NAME \<Rightarrow> bool" where
  "match_any_matcher [] general_name = False"
| "match_any_matcher (config_san_matcher # rest) general_name =
     (if config_san_matcher general_name then True else match_any_matcher rest general_name)"

fun match_san_names :: "(GENERAL_NAME \<Rightarrow> bool) list \<Rightarrow> GENERAL_NAME list \<Rightarrow> bool" where
  "match_san_names matchers [] = False"
| "match_san_names matchers (general_name # rest) =
     (if match_any_matcher matchers general_name then True else match_san_names matchers rest)"

text \<open>
  \<open>SPIFFEValidator::matchSubjectAltName\<close>; \<open>Inl\<close> is the \<open>ASSERT\<close> failing, with its
  message (the macro checks in debug builds; the model keeps the check).
\<close>

definition matchSubjectAltName :: "'s SPIFFEValidator \<Rightarrow> X509 \<Rightarrow> string + bool" where
  "matchSubjectAltName v leaf_cert =
     (case subject_alt_name leaf_cert of
        None \<Rightarrow> Inl ''san_names should have at least one name after SPIFFE cert validation''
      | Some san_names \<Rightarrow> Inr (match_san_names (subject_alt_name_matchers v) san_names))"

definition inc_fail_verify_error :: "'s SPIFFEValidator \<Rightarrow> 's SPIFFEValidator" where
  "inc_fail_verify_error v = v\<lparr>stats := (stats v)\<lparr>fail_verify_error := fail_verify_error (stats v) + 1\<rparr>\<rparr>"

definition inc_fail_verify_san :: "'s SPIFFEValidator \<Rightarrow> 's SPIFFEValidator" where
  "inc_fail_verify_san v = v\<lparr>stats := (stats v)\<lparr>fail_verify_san := fail_verify_san (stats v) + 1\<rparr>\<rparr>"

text \<open>
  \<open>SPIFFEValidator::verifyCertChainUsingTrustBundleStore\<close>, on worker \<open>thread\<close>, in
  two parts. The result is the value returned, \<open>error_details\<close> afterwards, and the
  validator with its counters; \<open>Inl\<close> is the assertion of \<open>matchSubjectAltName\<close>
  failing. \<open>verify_with_store\<close> is the function from the point where it holds a store
  (source lines 329 to 354): path validation on a fresh context, then SAN matching.
\<close>

definition verify_with_store ::
  "('s, 'p) collaborators \<Rightarrow> 's SPIFFEValidator \<Rightarrow> 's \<Rightarrow> X509 \<Rightarrow> X509 list \<Rightarrow> 'p \<Rightarrow> string
    \<Rightarrow> string + bool \<times> string \<times> 's SPIFFEValidator" where
  "verify_with_store c v trust_bundle leaf_cert cert_chain verify_param error_details0 =
     (if \<not> X509_STORE_CTX_init c trust_bundle leaf_cert cert_chain
         \<or> \<not> X509_VERIFY_PARAM_set1 c verify_param then
        Inr (False, ''verify cert failed: init and setup X509_STORE_CTX'',
             inc_fail_verify_error v)
      else
        (let new_store_ctx =
               \<lparr>ctx_store = trust_bundle, ctx_cert = leaf_cert, ctx_chain = cert_chain,
                ctx_param = verify_param,
                ctx_ignore_expiration = allow_expired_certificate v\<rparr>
         in if \<not> X509_verify_cert c new_store_ctx then
              Inr (False,
                   ''verify cert failed: '' @ getX509VerificationErrorInfo c new_store_ctx,
                   inc_fail_verify_error v)
            else
              (case (if subject_alt_name_matchers v = [] then Inr True
                     else matchSubjectAltName v leaf_cert) of
                 Inl assertion \<Rightarrow> Inl assertion
               | Inr san_match \<Rightarrow>
                   if \<not> san_match then
                     Inr (False, ''verify cert failed: SAN match'', inc_fail_verify_san v)
                   else Inr (True, error_details0, v))))"

definition verifyCertChainUsingTrustBundleStore ::
  "('s, 'p) collaborators \<Rightarrow> 's SPIFFEValidator \<Rightarrow> nat \<Rightarrow> X509 \<Rightarrow> X509 list \<Rightarrow> 'p \<Rightarrow> string
    \<Rightarrow> string + bool \<times> string \<times> 's SPIFFEValidator" where
  "verifyCertChainUsingTrustBundleStore c v thread leaf_cert cert_chain verify_param error_details0 =
     (if \<not> certificatePrecheck leaf_cert then
        Inr (False, ''verify cert failed: cert precheck'', inc_fail_verify_error v)
      else
        (case getTrustBundleStore c v thread leaf_cert of
           None \<Rightarrow>
             Inr (False, ''verify cert failed: no trust bundle store'', inc_fail_verify_error v)
         | Some trust_bundle \<Rightarrow>
             verify_with_store c v trust_bundle leaf_cert cert_chain verify_param
               error_details0))"

text \<open>\<open>SPIFFEValidator::doVerifyCertChain\<close>, on worker \<open>thread\<close>.\<close>

definition doVerifyCertChain ::
  "('s, 'p) collaborators \<Rightarrow> 's SPIFFEValidator \<Rightarrow> nat \<Rightarrow> X509 list \<Rightarrow> 'p
    \<Rightarrow> string + ValidationResults \<times> 's SPIFFEValidator" where
  "doVerifyCertChain c v thread cert_chain ssl_ctx_param =
     (case cert_chain of
        [] \<Rightarrow>
          Inr (\<lparr>status = Status_Failed, detailed_status = Client_NotValidated,
                tls_alert = None,
                error_details = Some ''verify cert failed: empty cert chain''\<rparr>,
               inc_fail_verify_error v)
      | leaf_cert # _ \<Rightarrow>
          (case verifyCertChainUsingTrustBundleStore c v thread leaf_cert cert_chain
                  ssl_ctx_param '''' of
             Inl assertion \<Rightarrow> Inl assertion
           | Inr (verified, details, v') \<Rightarrow>
               Inr (if verified then
                      \<lparr>status = Status_Successful, detailed_status = Client_Validated,
                       tls_alert = None, error_details = None\<rparr>
                    else
                      \<lparr>status = Status_Failed, detailed_status = Client_Failed,
                       tls_alert = None, error_details = Some details\<rparr>,
                    v')))"

text \<open>
  The two results \<open>doVerifyCertChain\<close> builds once the chain has a leaf, by name.
\<close>

definition failed_with :: "string \<Rightarrow> ValidationResults" where
  "failed_with details =
     \<lparr>status = Status_Failed, detailed_status = Client_Failed, tls_alert = None,
      error_details = Some details\<rparr>"

definition successful :: ValidationResults where
  "successful =
     \<lparr>status = Status_Successful, detailed_status = Client_Validated, tls_alert = None,
      error_details = None\<rparr>"

subsection \<open>Expiration\<close>

text \<open>The loop of \<open>daysUntilFirstCertExpires\<close> (source lines 461 to 468).\<close>

fun days_loop ::
  "('s, 'p) collaborators \<Rightarrow> 32 word \<Rightarrow> X509 list \<Rightarrow> 32 word option" where
  "days_loop c ret [] = Some ret"
| "days_loop c ret (cert # certs) =
     (case getDaysUntilExpiration c cert of
        None \<Rightarrow> None
      | Some tmp \<Rightarrow> if tmp < ret then days_loop c tmp certs else days_loop c ret certs)"

definition uint32_max :: "32 word" where
  "uint32_max = 0xFFFFFFFF"

text \<open>\<open>SPIFFEValidator::daysUntilFirstCertExpires\<close>, on worker \<open>thread\<close>.\<close>

definition daysUntilFirstCertExpires ::
  "('s, 'p) collaborators \<Rightarrow> 's SPIFFEValidator \<Rightarrow> nat \<Rightarrow> 32 word option" where
  "daysUntilFirstCertExpires c v thread =
     (let current = tls v thread in
      if ca_certs current = [] then Some uint32_max
      else days_loop c uint32_max (ca_certs current))"

section \<open>The snapshot of a bundle map, in the specification's words\<close>

text \<open>
  What section 4.1 of the specification says a loaded document contributes, written
  independently of the loader, to compare the loader with. An \<open>x5c\<close> entry contributes
  its certificate when the certificate has a URI SAN entry that starts with
  \<open>spiffe://\<close>; a domain object contributes the certificates of its \<open>x509-svid\<close> keys, in
  document order; the CA list is all of them in document order; the store of a domain
  is a fresh store to which the certificates of every occurrence of that domain key were
  added in document order. The order of the domains is the order of the list of fields,
  the one \<open>iterate\<close> visits them in.
\<close>

definition spec_accepted_cert :: "('s, 'p) collaborators \<Rightarrow> string \<Rightarrow> X509 option" where
  "spec_accepted_cert c cert =
     (case d2i_X509 c (Base64_decode c cert) of
        None \<Rightarrow> None
      | Some parsed \<Rightarrow>
          (case subject_alt_name parsed of
             None \<Rightarrow> None
           | Some san_names \<Rightarrow>
               if list_ex (\<lambda>g. name_type g = GEN_URI \<and> StartsWith (name_data g) ''spiffe://'')
                    san_names
               then Some parsed else None))"

definition spec_key_certs :: "('s, 'p) collaborators \<Rightarrow> json_key \<Rightarrow> X509 list" where
  "spec_key_certs c key =
     (if key_use key = ''x509-svid'' then List.map_filter (spec_accepted_cert c) (key_x5c key)
      else [])"

definition spec_domain_certs :: "('s, 'p) collaborators \<Rightarrow> json_domain \<Rightarrow> X509 list" where
  "spec_domain_certs c domain_object =
     concat (map (spec_key_certs c) (domain_keys domain_object))"

definition spec_ca_certs ::
  "('s, 'p) collaborators \<Rightarrow> (string \<times> json_domain) list \<Rightarrow> X509 list" where
  "spec_ca_certs c domains =
     concat (map (\<lambda>(domain_name, domain_object). spec_domain_certs c domain_object) domains)"

definition spec_certs_of_domain ::
  "('s, 'p) collaborators \<Rightarrow> (string \<times> json_domain) list \<Rightarrow> string \<Rightarrow> X509 list" where
  "spec_certs_of_domain c domains trust_domain =
     concat (map (\<lambda>(domain_name, domain_object).
                    if domain_name = trust_domain then spec_domain_certs c domain_object else [])
               domains)"

definition add_certs :: "('s, 'p) collaborators \<Rightarrow> X509 list \<Rightarrow> 's \<Rightarrow> 's" where
  "add_certs c certs store = fold (\<lambda>x509 st. snd (X509_STORE_add_cert c st x509)) certs store"

definition spec_store ::
  "('s, 'p) collaborators \<Rightarrow> (string \<times> json_domain) list \<Rightarrow> string \<Rightarrow> 's" where
  "spec_store c domains trust_domain =
     add_certs c (spec_certs_of_domain c domains trust_domain) (X509_STORE_new c)"

text \<open>
  For the static list: an entry loads when its source is read and parses to a PEM list
  that is not empty; the exception of an entry that ends the construction is the one for
  a repeated name when an earlier entry has its name, and otherwise the reader's error or
  the one for a bundle that does not load.
\<close>

definition bundle_loads :: "('s, 'p) collaborators \<Rightarrow> TrustDomain \<Rightarrow> bool" where
  "bundle_loads c domain =
     (case DataSource_read c (td_trust_bundle domain) of
        Inl msg \<Rightarrow> False
      | Inr bytes \<Rightarrow>
          (case PEM_X509_INFO_read_bio c bytes of
             None \<Rightarrow> False
           | Some items \<Rightarrow> items \<noteq> []))"

definition entry_exception ::
  "('s, 'p) collaborators \<Rightarrow> TrustDomain list \<Rightarrow> TrustDomain \<Rightarrow> EnvoyException" where
  "entry_exception c earlier domain =
     (if td_name domain \<in> set (map td_name earlier) then
        EnvoyException
          (''Multiple trust bundles are given for one trust domain for '' @ td_name domain)
      else
        (case DataSource_read c (td_trust_bundle domain) of
           Inl msg \<Rightarrow> EnvoyException msg
         | Inr bytes \<Rightarrow>
             EnvoyException (''Failed to load trusted CA certificate for '' @ td_name domain)))"

section \<open>Example inputs\<close>

text \<open>
  Concrete collaborators, certificates and a validator, on which the theorems below are
  evaluated. The store of the example library is the list of its certificates; its path
  validation succeeds on a store that is not empty.
\<close>

definition uri_name :: "string \<Rightarrow> GENERAL_NAME" where
  "uri_name s = \<lparr>name_type = GEN_URI, name_data = s\<rparr>"

definition dns_name :: "string \<Rightarrow> GENERAL_NAME" where
  "dns_name s = \<lparr>name_type = GEN_DNS, name_data = s\<rparr>"

definition example_cert :: "string \<Rightarrow> 32 word \<Rightarrow> 32 word \<Rightarrow> GENERAL_NAME list option \<Rightarrow> X509" where
  "example_cert subject flags usage san =
     \<lparr>subject_name = subject, extension_flags = flags, key_usage = usage,
      subject_alt_name = san\<rparr>"

definition example_d2i :: "string \<Rightarrow> X509 option" where
  "example_d2i der =
     (if der = ''A1'' then
        Some (example_cert ''ca1.a.org'' 0x10 0x06
                (Some [uri_name ''spiffe://a.org/ca'', uri_name ''spiffe://b.org/x'']))
      else if der = ''A2'' then
        Some (example_cert ''ca2.a.org'' 0x10 0x06 (Some [uri_name ''spiffe://a.org'']))
      else if der = ''B1'' then
        Some (example_cert ''ca1.b.org'' 0x10 0x06 (Some [uri_name ''spiffe://b.org/y'']))
      else None)"

definition example_days :: "X509 \<Rightarrow> 32 word option" where
  "example_days x509 =
     (if subject_name x509 = ''ca-10-days'' then Some 10
      else if subject_name x509 = ''ca-5-days'' then Some 5
      else if subject_name x509 = ''ca-30-days'' then Some 30
      else None)"

definition validator_with_ca_certs :: "X509 list \<Rightarrow> X509 list SPIFFEValidator" where
  "validator_with_ca_certs certs =
     \<lparr>allow_expired_certificate = False,
      tls = (\<lambda>thread. \<lparr>trust_bundle_stores = [''example.org'' \<mapsto> certs], ca_certs = certs,
                         spiffe_refresh_hint = 0, spiffe_sequence = 0\<rparr>),
      ca_file_name = ''example.org: <inline>'',
      trust_bundle_file_name = [],
      spiffe_data = \<lparr>trust_bundle_stores = [''example.org'' \<mapsto> certs], ca_certs = certs,
                      spiffe_refresh_hint = 0, spiffe_sequence = 0\<rparr>,
      subject_alt_name_matchers = [],
      main_thread_dispatcher = [],
      file_watcher = None,
      stats = \<lparr>fail_verify_error = 0, fail_verify_san = 0\<rparr>\<rparr>"

definition example_collaborators :: "(X509 list, unit) collaborators" where
  "example_collaborators =
     \<lparr>Base64_decode = (\<lambda>cert. cert),
      d2i_X509 = example_d2i,
      X509_STORE_new = [],
      X509_STORE_add_cert = (\<lambda>store x509. (True, if x509 \<in> set store then store else store @ [x509])),
      X509_STORE_add_crl = (\<lambda>store crl. store),
      X509_STORE_set_flags = (\<lambda>store flags. store),
      X509_STORE_CTX_init = (\<lambda>store leaf chain. True),
      X509_VERIFY_PARAM_set1 = (\<lambda>param. True),
      X509_verify_cert = (\<lambda>ctx. ctx_store ctx \<noteq> []),
      getX509VerificationErrorInfo = (\<lambda>ctx. ''unable to get local issuer certificate''),
      generalNameAsString = name_data,
      getDaysUntilExpiration = example_days,
      DataSource_read = (\<lambda>source. Inr (ds_inline source)),
      PEM_X509_INFO_read_bio =
        (\<lambda>pem. case example_d2i pem of
                  None \<Rightarrow> None
                | Some x509 \<Rightarrow> Some [\<lparr>info_x509 = Some x509, info_crl = None\<rparr>]),
      createStringSanMatcher =
        (\<lambda>matcher general_name.
           name_type general_name = GEN_URI \<and> name_data general_name = san_matcher matcher),
      addWatch = (\<lambda>path. None)\<rparr>"

definition example_snapshot :: "X509 list SpiffeData" where
  "example_snapshot =
     \<lparr>trust_bundle_stores =
        [''example.org'' \<mapsto> [example_cert ''ca.example.org'' 0x10 0x06 None],
         '''' \<mapsto> [example_cert ''ca.nowhere'' 0x10 0x06 None]],
      ca_certs = [example_cert ''ca.example.org'' 0x10 0x06 None,
                  example_cert ''ca.nowhere'' 0x10 0x06 None],
      spiffe_refresh_hint = 0, spiffe_sequence = 0\<rparr>"

definition example_validator :: "(GENERAL_NAME \<Rightarrow> bool) list \<Rightarrow> X509 list SPIFFEValidator" where
  "example_validator matchers =
     \<lparr>allow_expired_certificate = False,
      tls = (\<lambda>thread. example_snapshot),
      ca_file_name = ''example.org: <inline>'',
      trust_bundle_file_name = '''',
      spiffe_data = example_snapshot,
      subject_alt_name_matchers = matchers,
      main_thread_dispatcher = [],
      file_watcher = None,
      stats = \<lparr>fail_verify_error = 0, fail_verify_san = 0\<rparr>\<rparr>"

definition example_config :: "TrustDomain list \<Rightarrow> CertificateValidationContextConfig" where
  "example_config domains =
     \<lparr>allowExpiredCertificate = False, subjectAltNameMatchers = [],
      customValidatorConfig = \<lparr>trust_domains = domains, trust_bundle_map = None\<rparr>\<rparr>"

definition inline_domain :: "string \<Rightarrow> string \<Rightarrow> TrustDomain" where
  "inline_domain domain pem =
     \<lparr>td_name = domain, td_trust_bundle = \<lparr>ds_filename = '''', ds_inline = pem\<rparr>\<rparr>"

section \<open>Trust-domain extraction\<close>

lemma StartsWith_length: "StartsWith san pre \<Longrightarrow> length pre \<le> length san"
  by (simp add: StartsWith_def)

lemma StartsWith_append: "StartsWith (pre @ r) pre"
  by (simp add: StartsWith_def)

lemma StartsWith_iff: "StartsWith s p \<longleftrightarrow> (\<exists>r. s = p @ r)"
proof
  assume "StartsWith s p"
  then have "s = p @ drop (length p) s"
    unfolding StartsWith_def by (metis append_take_drop_id)
  then show "\<exists>r. s = p @ r" ..
next
  assume "\<exists>r. s = p @ r"
  then show "StartsWith s p" by (auto simp: StartsWith_def)
qed

lemma string_find_none:
  assumes "c \<notin> set (drop pos s)"
  shows "string_find s c pos = None"
proof -
  have "dropWhile (\<lambda>x. x \<noteq> c) (drop pos s) = []"
    using assms by (auto simp: dropWhile_eq_Nil_conv)
  then show ?thesis
    unfolding string_find_def by (simp only: list.case)
qed

lemma string_find_some:
  assumes "drop pos s = d @ c # p" and "c \<notin> set d"
  shows "string_find s c pos = Some (pos + length d)"
proof -
  have "dropWhile (\<lambda>x. x \<noteq> c) (d @ c # p) = c # p"
    using assms(2) by (induction d) auto
  moreover have "takeWhile (\<lambda>x. x \<noteq> c) (d @ c # p) = d"
    using assms(2) by (induction d) auto
  ultimately show ?thesis
    unfolding string_find_def assms(1) by (simp only: list.case)
qed

lemma extract_no_prefix:
  "\<not> StartsWith s spiffe_prefix \<Longrightarrow> extractTrustDomain s = ''''"
  by (simp add: extractTrustDomain_def)

lemma extract_no_slash:
  assumes "CHR ''/'' \<notin> set r"
  shows "extractTrustDomain (spiffe_prefix @ r) = r"
proof -
  have "string_find (spiffe_prefix @ r) CHR ''/'' (length spiffe_prefix) = None"
    using assms by (intro string_find_none) simp
  then show ?thesis
    by (simp add: extractTrustDomain_def substr_from_def StartsWith_append)
qed

lemma extract_slash:
  assumes "CHR ''/'' \<notin> set d"
  shows "extractTrustDomain (spiffe_prefix @ d @ CHR ''/'' # p) = d"
proof -
  let ?s = "spiffe_prefix @ d @ CHR ''/'' # p"
  have "string_find ?s CHR ''/'' (length spiffe_prefix) = Some (length spiffe_prefix + length d)"
    using assms by (intro string_find_some[where p = p]) simp_all
  then show ?thesis
    by (simp add: extractTrustDomain_def substr_def StartsWith_append)
qed

text \<open>
  C2. \<open>extractTrustDomain\<close> gives the empty string for a string that does not start
  with \<open>spiffe://\<close>; for one that does, everything after the prefix when no \<open>/\<close>
  follows it, and otherwise what stands strictly between the prefix and the first
  \<open>/\<close> after it. The three examples of the specification are the last three conjuncts.
\<close>

theorem extractTrustDomain_cases:
  "((\<nexists>r. s = ''spiffe://'' @ r) \<longrightarrow> extractTrustDomain s = '''') \<and>
   (CHR ''/'' \<notin> set rest \<longrightarrow> extractTrustDomain (''spiffe://'' @ rest) = rest) \<and>
   (CHR ''/'' \<notin> set d \<longrightarrow> extractTrustDomain (''spiffe://'' @ d @ ''/'' @ path) = d) \<and>
   extractTrustDomain ''spiffe://example.org/svc'' = ''example.org'' \<and>
   extractTrustDomain ''spiffe://example.org'' = ''example.org'' \<and>
   extractTrustDomain ''https://example.org'' = ''''"
proof -
  have a: "(\<nexists>r. s = ''spiffe://'' @ r) \<longrightarrow> extractTrustDomain s = ''''"
    using extract_no_prefix[of s] StartsWith_iff[of s spiffe_prefix]
    by (simp add: spiffe_prefix_def)
  have b: "CHR ''/'' \<notin> set r \<Longrightarrow> extractTrustDomain (''spiffe://'' @ r) = r" for r
    using extract_no_slash[of r] by (simp add: spiffe_prefix_def)
  have c: "CHR ''/'' \<notin> set d' \<Longrightarrow> extractTrustDomain (''spiffe://'' @ d' @ ''/'' @ p) = d'" for d' p
    using extract_slash[of d' p] by (simp add: spiffe_prefix_def)
  have e1: "extractTrustDomain ''spiffe://example.org/svc'' = ''example.org''"
    using c[of "''example.org''" "''svc''"] by simp
  have e2: "extractTrustDomain ''spiffe://example.org'' = ''example.org''"
    using b[of "''example.org''"] by simp
  have e3: "extractTrustDomain ''https://example.org'' = ''''"
    by (simp add: extractTrustDomain_def StartsWith_def spiffe_prefix_def)
  show ?thesis using a b c e1 e2 e3 by blast
qed

theorem extractTrustDomain_cases_witness:
  "(\<nexists>r. ''https://example.org'' = ''spiffe://'' @ r) \<and>
   extractTrustDomain ''https://example.org'' = '''' \<and>
   CHR ''/'' \<notin> set ''example.org'' \<and>
   extractTrustDomain (''spiffe://'' @ ''example.org'') = ''example.org'' \<and>
   extractTrustDomain (''spiffe://'' @ ''example.org'' @ ''/'' @ ''svc'') = ''example.org''"
  using extractTrustDomain_cases
    [of "''https://example.org''" "''example.org''" "''example.org''" "''svc''"]
  by simp

section \<open>Verification\<close>

lemma and_or_zero_iff:
  "(us :: 32 word) AND (a OR b) = 0 \<longleftrightarrow> us AND a = 0 \<and> us AND b = 0"
  by (simp add: bit.conj_disj_distrib or_eq_0_iff)

lemma certificatePrecheck_iff:
  "certificatePrecheck leaf \<longleftrightarrow>
     extension_flags leaf AND EXFLAG_CA = 0 \<and> key_usage leaf AND KU_CRL_SIGN = 0
     \<and> key_usage leaf AND KU_KEY_CERT_SIGN = 0"
  by (auto simp: certificatePrecheck_def Let_def and_or_zero_iff)

lemma doVerifyCertChain_leaf:
  "doVerifyCertChain c v thread (leaf # rest) param =
     (case verifyCertChainUsingTrustBundleStore c v thread leaf (leaf # rest) param '''' of
        Inl assertion \<Rightarrow> Inl assertion
      | Inr (verified, details, v') \<Rightarrow>
          Inr (if verified then successful else failed_with details, v'))"
  by (simp add: doVerifyCertChain_def successful_def failed_with_def split: sum.splits prod.splits)

text \<open>
  C3. For a chain with a leaf, when the leaf's extension flags carry the CA bit, or its
  key usage carries the certificate-signing or the CRL-signing bit, \<open>doVerifyCertChain\<close>
  gives Failed with \<open>verify cert failed: cert precheck\<close> and counts a verification
  error, whatever the collaborators (path validation), the snapshot and the rest of the
  chain are: none of them stands in the result.
\<close>

theorem precheck_rejects_ca_leaf:
  assumes "extension_flags leaf AND EXFLAG_CA \<noteq> 0
           \<or> key_usage leaf AND KU_KEY_CERT_SIGN \<noteq> 0
           \<or> key_usage leaf AND KU_CRL_SIGN \<noteq> 0"
  shows "doVerifyCertChain c v thread (leaf # rest) param =
           Inr (failed_with ''verify cert failed: cert precheck'', inc_fail_verify_error v)"
proof -
  have "\<not> certificatePrecheck leaf"
    using assms by (auto simp: certificatePrecheck_iff)
  then show ?thesis
    by (simp add: doVerifyCertChain_leaf verifyCertChainUsingTrustBundleStore_def)
qed

lemma san_trust_domain_find:
  "san_trust_domain c names =
     (case find (\<lambda>g. name_type g = GEN_URI) names of
        None \<Rightarrow> ''''
      | Some g \<Rightarrow> extractTrustDomain (generalNameAsString c g))"
  by (induction names) auto

theorem precheck_rejects_ca_leaf_witness:
  "extension_flags (example_cert ''workload'' 0x10 0x80 (Some [uri_name ''spiffe://example.org/workload''])) AND EXFLAG_CA \<noteq> 0
   \<and> doVerifyCertChain example_collaborators (example_validator []) 0
        [example_cert ''workload'' 0x10 0x80 (Some [uri_name ''spiffe://example.org/workload''])] ()
      = Inr (failed_with ''verify cert failed: cert precheck'',
             inc_fail_verify_error (example_validator []))"
proof -
  have h: "extension_flags (example_cert ''workload'' 0x10 0x80
             (Some [uri_name ''spiffe://example.org/workload''])) AND EXFLAG_CA \<noteq> 0"
    by (simp add: example_cert_def EXFLAG_CA_def)
  show ?thesis
    using h precheck_rejects_ca_leaf[OF disjI1, OF h, of example_collaborators "example_validator []" 0 "[]" "()"]
    by simp
qed

lemma getTrustBundleStore_find:
  "getTrustBundleStore c v thread leaf =
     (case subject_alt_name leaf of
        None \<Rightarrow> None
      | Some names \<Rightarrow>
          (case find (\<lambda>g. name_type g = GEN_URI) names of
             None \<Rightarrow> None
           | Some g \<Rightarrow>
               if extractTrustDomain (generalNameAsString c g) = '''' then None
               else trust_bundle_stores (tls v thread)
                      (extractTrustDomain (generalNameAsString c g))))"
  by (simp add: getTrustBundleStore_def san_trust_domain_find split: option.splits)

lemmas example_defs =
  example_collaborators_def example_validator_def example_snapshot_def example_cert_def
  uri_name_def dns_name_def failed_with_def successful_def

lemma extract_empty_authority:
  "extractTrustDomain ''spiffe://'' = ''''"
  "extractTrustDomain (''spiffe:///'' @ path) = ''''"
  using extract_no_slash[of "''''"] extract_slash[of "''''" path]
  by (simp_all add: spiffe_prefix_def)

lemma example_extract:
  "extractTrustDomain ''spiffe://example.org/workload'' = ''example.org''"
  "extractTrustDomain ''spiffe://other.org/workload'' = ''other.org''"
  using extract_slash[of "''example.org''" "''workload''"]
        extract_slash[of "''other.org''" "''workload''"]
  by (simp_all add: spiffe_prefix_def)

lemma match_any_matcher_iff:
  "match_any_matcher matchers g \<longleftrightarrow> (\<exists>m \<in> set matchers. m g)"
  by (induction matchers) auto

lemma match_san_names_iff:
  "match_san_names matchers names \<longleftrightarrow> (\<exists>g \<in> set names. \<exists>m \<in> set matchers. m g)"
  by (induction names) (auto simp: match_any_matcher_iff)

lemma getTrustBundleStore_Some_san:
  assumes "getTrustBundleStore c v thread leaf = Some store"
  shows "\<exists>names g. subject_alt_name leaf = Some names
           \<and> find (\<lambda>g. name_type g = GEN_URI) names = Some g
           \<and> extractTrustDomain (generalNameAsString c g) \<noteq> ''''"
proof (cases "subject_alt_name leaf")
  case None
  with assms show ?thesis by (simp add: getTrustBundleStore_find)
next
  case (Some names)
  show ?thesis
  proof (cases "find (\<lambda>g. name_type g = GEN_URI) names")
    case None
    with assms Some show ?thesis by (simp add: getTrustBundleStore_find)
  next
    case g: (Some g)
    with assms Some have "extractTrustDomain (generalNameAsString c g) \<noteq> ''''"
      by (auto simp: getTrustBundleStore_find split: if_splits)
    with Some g show ?thesis by blast
  qed
qed

lemma inc_fail_verify_san_stats:
  "fail_verify_error (stats (inc_fail_verify_san v)) = fail_verify_error (stats v)"
  "fail_verify_san (stats (inc_fail_verify_san v)) = fail_verify_san (stats v) + 1"
  by (simp_all add: inc_fail_verify_san_def)

text \<open>
  C4. For a chain whose leaf passes the precheck: when the leaf has no SAN extension, or no
  \<open>GEN_URI\<close> entry, or its first \<open>GEN_URI\<close> entry has an empty extracted trust domain,
  or one that is no key of the worker's snapshot, verification gives Failed with
  \<open>verify cert failed: no trust bundle store\<close>. Otherwise the store the snapshot holds
  for that trust domain is the one the validation context is set up with and
  \<open>X509_verify_cert\<close> runs on: the result is the set-up failure, the path-validation
  failure with the library's diagnostic for that context, or the outcome of SAN matching.
\<close>

theorem no_trust_bundle_store:
  assumes "certificatePrecheck leaf"
  shows "(subject_alt_name leaf = None
          \<or> (\<exists>names. subject_alt_name leaf = Some names
                \<and> (find (\<lambda>g. name_type g = GEN_URI) names = None
                    \<or> (\<exists>g. find (\<lambda>g. name_type g = GEN_URI) names = Some g
                          \<and> (extractTrustDomain (generalNameAsString c g) = ''''
                              \<or> trust_bundle_stores (tls v thread)
                                   (extractTrustDomain (generalNameAsString c g)) = None))))
          \<longrightarrow> doVerifyCertChain c v thread (leaf # rest) param =
                Inr (failed_with ''verify cert failed: no trust bundle store'',
                     inc_fail_verify_error v))
       \<and> (subject_alt_name leaf = Some names
             \<and> find (\<lambda>g. name_type g = GEN_URI) names = Some g
             \<and> extractTrustDomain (generalNameAsString c g) \<noteq> ''''
             \<and> trust_bundle_stores (tls v thread)
                  (extractTrustDomain (generalNameAsString c g)) = Some store
             \<longrightarrow> doVerifyCertChain c v thread (leaf # rest) param =
                   (if \<not> X509_STORE_CTX_init c store leaf (leaf # rest)
                       \<or> \<not> X509_VERIFY_PARAM_set1 c param then
                      Inr (failed_with ''verify cert failed: init and setup X509_STORE_CTX'',
                           inc_fail_verify_error v)
                    else if \<not> X509_verify_cert c
                               \<lparr>ctx_store = store, ctx_cert = leaf, ctx_chain = leaf # rest,
                                ctx_param = param,
                                ctx_ignore_expiration = allow_expired_certificate v\<rparr> then
                      Inr (failed_with
                             (''verify cert failed: '' @
                                getX509VerificationErrorInfo c
                                  \<lparr>ctx_store = store, ctx_cert = leaf, ctx_chain = leaf # rest,
                                   ctx_param = param,
                                   ctx_ignore_expiration = allow_expired_certificate v\<rparr>),
                           inc_fail_verify_error v)
                    else if subject_alt_name_matchers v = []
                            \<or> (\<exists>n \<in> set names. \<exists>m \<in> set (subject_alt_name_matchers v). m n) then
                      Inr (successful, v)
                    else
                      Inr (failed_with ''verify cert failed: SAN match'',
                           inc_fail_verify_san v)))"
proof (intro conjI impI)
  assume h: "subject_alt_name leaf = None
          \<or> (\<exists>names. subject_alt_name leaf = Some names
                \<and> (find (\<lambda>g. name_type g = GEN_URI) names = None
                    \<or> (\<exists>g. find (\<lambda>g. name_type g = GEN_URI) names = Some g
                          \<and> (extractTrustDomain (generalNameAsString c g) = ''''
                              \<or> trust_bundle_stores (tls v thread)
                                   (extractTrustDomain (generalNameAsString c g)) = None))))"
  have "getTrustBundleStore c v thread leaf = None"
  proof (cases "subject_alt_name leaf")
    case None
    then show ?thesis by (simp add: getTrustBundleStore_find)
  next
    case (Some names')
    with h have "find (\<lambda>g. name_type g = GEN_URI) names' = None
                    \<or> (\<exists>g. find (\<lambda>g. name_type g = GEN_URI) names' = Some g
                          \<and> (extractTrustDomain (generalNameAsString c g) = ''''
                              \<or> trust_bundle_stores (tls v thread)
                                   (extractTrustDomain (generalNameAsString c g)) = None))"
      by simp
    then show ?thesis
      using Some by (elim disjE exE conjE) (simp_all add: getTrustBundleStore_find)
  qed
  then show "doVerifyCertChain c v thread (leaf # rest) param =
                Inr (failed_with ''verify cert failed: no trust bundle store'',
                     inc_fail_verify_error v)"
    using assms by (simp add: doVerifyCertChain_leaf verifyCertChainUsingTrustBundleStore_def)
next
  let ?ctx = "\<lparr>ctx_store = store, ctx_cert = leaf, ctx_chain = leaf # rest, ctx_param = param,
               ctx_ignore_expiration = allow_expired_certificate v\<rparr>"
  assume h: "subject_alt_name leaf = Some names
             \<and> find (\<lambda>g. name_type g = GEN_URI) names = Some g
             \<and> extractTrustDomain (generalNameAsString c g) \<noteq> ''''
             \<and> trust_bundle_stores (tls v thread)
                  (extractTrustDomain (generalNameAsString c g)) = Some store"
  then have st: "getTrustBundleStore c v thread leaf = Some store"
    by (simp add: getTrustBundleStore_find)
  have m: "matchSubjectAltName v leaf =
             Inr (\<exists>n \<in> set names. \<exists>m \<in> set (subject_alt_name_matchers v). m n)"
    using h by (simp add: matchSubjectAltName_def match_san_names_iff)
  have "verifyCertChainUsingTrustBundleStore c v thread leaf (leaf # rest) param '''' =
      (if \<not> X509_STORE_CTX_init c store leaf (leaf # rest)
          \<or> \<not> X509_VERIFY_PARAM_set1 c param then
         Inr (False, ''verify cert failed: init and setup X509_STORE_CTX'',
              inc_fail_verify_error v)
       else if \<not> X509_verify_cert c ?ctx then
         Inr (False, ''verify cert failed: '' @ getX509VerificationErrorInfo c ?ctx,
              inc_fail_verify_error v)
       else if subject_alt_name_matchers v = []
               \<or> (\<exists>n \<in> set names. \<exists>m \<in> set (subject_alt_name_matchers v). m n) then
         Inr (True, '''', v)
       else Inr (False, ''verify cert failed: SAN match'', inc_fail_verify_san v))"
    using assms st
    by (auto simp: verifyCertChainUsingTrustBundleStore_def verify_with_store_def m Let_def)
  then show "doVerifyCertChain c v thread (leaf # rest) param =
                   (if \<not> X509_STORE_CTX_init c store leaf (leaf # rest)
                       \<or> \<not> X509_VERIFY_PARAM_set1 c param then
                      Inr (failed_with ''verify cert failed: init and setup X509_STORE_CTX'',
                           inc_fail_verify_error v)
                    else if \<not> X509_verify_cert c ?ctx then
                      Inr (failed_with
                             (''verify cert failed: '' @ getX509VerificationErrorInfo c ?ctx),
                           inc_fail_verify_error v)
                    else if subject_alt_name_matchers v = []
                            \<or> (\<exists>n \<in> set names. \<exists>m \<in> set (subject_alt_name_matchers v). m n) then
                      Inr (successful, v)
                    else
                      Inr (failed_with ''verify cert failed: SAN match'',
                           inc_fail_verify_san v))"
    by (auto simp: doVerifyCertChain_leaf)
qed

theorem no_trust_bundle_store_witness:
  "certificatePrecheck (example_cert ''workload'' 0 0x80 (Some [dns_name ''w.other.org'', uri_name ''spiffe://other.org/workload'']))
   \<and> doVerifyCertChain example_collaborators (example_validator []) 0
        [example_cert ''workload'' 0 0x80 (Some [dns_name ''w.other.org'', uri_name ''spiffe://other.org/workload''])] ()
      = Inr (failed_with ''verify cert failed: no trust bundle store'',
             inc_fail_verify_error (example_validator []))
   \<and> certificatePrecheck (example_cert ''workload'' 0 0x80 (Some [uri_name ''spiffe://example.org/workload'']))
   \<and> trust_bundle_stores (tls (validator_with_ca_certs []) 0) ''example.org'' = Some []
   \<and> doVerifyCertChain example_collaborators (validator_with_ca_certs []) 0
        [example_cert ''workload'' 0 0x80 (Some [uri_name ''spiffe://example.org/workload''])] ()
      = Inr (failed_with ''verify cert failed: unable to get local issuer certificate'',
             inc_fail_verify_error (validator_with_ca_certs []))
   \<and> trust_bundle_stores
        (tls (validator_with_ca_certs [example_cert ''ca.example.org'' 0x10 0x06 None]) 0)
        ''example.org''
      = Some [example_cert ''ca.example.org'' 0x10 0x06 None]
   \<and> doVerifyCertChain example_collaborators
        (validator_with_ca_certs [example_cert ''ca.example.org'' 0x10 0x06 None]) 0
        [example_cert ''workload'' 0 0x80 (Some [uri_name ''spiffe://example.org/workload''])] ()
      = Inr (successful, validator_with_ca_certs [example_cert ''ca.example.org'' 0x10 0x06 None])"
proof -
  let ?names = "[dns_name ''w.other.org'', uri_name ''spiffe://other.org/workload'']"
  let ?leaf = "example_cert ''workload'' 0 0x80 (Some ?names)"
  let ?names' = "[uri_name ''spiffe://example.org/workload'']"
  let ?leaf' = "example_cert ''workload'' 0 0x80 (Some ?names')"
  let ?ca = "example_cert ''ca.example.org'' 0x10 0x06 None"
  have pre: "certificatePrecheck ?leaf"
    by (simp add: certificatePrecheck_iff example_cert_def EXFLAG_CA_def KU_CRL_SIGN_def
        KU_KEY_CERT_SIGN_def)
  have san: "subject_alt_name ?leaf = Some ?names"
    by (simp add: example_cert_def)
  have fnd: "find (\<lambda>g. name_type g = GEN_URI) ?names = Some (uri_name ''spiffe://other.org/workload'')"
    by (simp add: uri_name_def dns_name_def)
  have dom: "extractTrustDomain (generalNameAsString example_collaborators
               (uri_name ''spiffe://other.org/workload'')) = ''other.org''"
    by (simp add: example_collaborators_def uri_name_def example_extract)
  have nokey: "trust_bundle_stores (tls (example_validator []) 0) ''other.org'' = None"
    by (simp add: example_validator_def example_snapshot_def)
  have 1: "doVerifyCertChain example_collaborators (example_validator []) 0 [?leaf] ()
      = Inr (failed_with ''verify cert failed: no trust bundle store'',
             inc_fail_verify_error (example_validator []))"
    using san fnd dom nokey
      no_trust_bundle_store[OF pre, of example_collaborators "example_validator []" 0 "[]" "()",
        THEN conjunct1]
    by simp
  have pre': "certificatePrecheck ?leaf'"
    by (simp add: certificatePrecheck_iff example_cert_def EXFLAG_CA_def KU_CRL_SIGN_def
        KU_KEY_CERT_SIGN_def)
  have key: "trust_bundle_stores (tls (validator_with_ca_certs certs) 0) ''example.org'' = Some certs"
    for certs
    by (simp add: validator_with_ca_certs_def)
  have h: "subject_alt_name ?leaf' = Some ?names'
             \<and> find (\<lambda>g. name_type g = GEN_URI) ?names' = Some (uri_name ''spiffe://example.org/workload'')
             \<and> extractTrustDomain (generalNameAsString example_collaborators
                   (uri_name ''spiffe://example.org/workload'')) \<noteq> ''''
             \<and> trust_bundle_stores (tls (validator_with_ca_certs certs) 0)
                  (extractTrustDomain (generalNameAsString example_collaborators
                     (uri_name ''spiffe://example.org/workload''))) = Some certs"
    for certs
    using key[of certs]
    by (simp add: example_cert_def uri_name_def example_collaborators_def example_extract)
  have ex: "X509_STORE_CTX_init example_collaborators st l ch"
    "X509_VERIFY_PARAM_set1 example_collaborators ()"
    "X509_verify_cert example_collaborators ctx = (ctx_store ctx \<noteq> [])"
    "getX509VerificationErrorInfo example_collaborators ctx
       = ''unable to get local issuer certificate''"
    for st l ch ctx
    by (simp_all add: example_collaborators_def)
  have m: "subject_alt_name_matchers (validator_with_ca_certs certs) = []" for certs
    by (simp add: validator_with_ca_certs_def)
  have 2: "doVerifyCertChain example_collaborators (validator_with_ca_certs []) 0 [?leaf'] ()
      = Inr (failed_with ''verify cert failed: unable to get local issuer certificate'',
             inc_fail_verify_error (validator_with_ca_certs []))"
    using no_trust_bundle_store[OF pre', where names = ?names'
          and g = "uri_name ''spiffe://example.org/workload''" and c = example_collaborators
          and v = "validator_with_ca_certs []" and thread = 0 and store = "[]" and rest = "[]"
          and param = "()",
        THEN conjunct2, THEN mp, OF h]
    by (simp add: ex)
  have 3: "doVerifyCertChain example_collaborators (validator_with_ca_certs [?ca]) 0 [?leaf'] ()
      = Inr (successful, validator_with_ca_certs [?ca])"
    using no_trust_bundle_store[OF pre', where names = ?names'
          and g = "uri_name ''spiffe://example.org/workload''" and c = example_collaborators
          and v = "validator_with_ca_certs [?ca]" and thread = 0 and store = "[?ca]"
          and rest = "[]" and param = "()",
        THEN conjunct2, THEN mp, OF h]
    by (simp add: ex m)
  show ?thesis
    using pre 1 pre' key[of "[]"] 2 key[of "[?ca]"] 3 by blast
qed

text \<open>
  C5. After the precheck, the store lookup, the context set-up and \<open>X509_verify_cert\<close>
  have succeeded: with no matcher the result is Successful; with matchers it is Successful
  exactly when some SAN entry of the leaf satisfies some matcher, and otherwise Failed with
  \<open>verify cert failed: SAN match\<close>, where the SAN counter goes up by one and the general
  error counter stays.
\<close>

theorem san_matcher_policy:
  assumes "certificatePrecheck leaf"
    and "getTrustBundleStore c v thread leaf = Some store"
    and "X509_STORE_CTX_init c store leaf (leaf # rest)"
    and "X509_VERIFY_PARAM_set1 c param"
    and "X509_verify_cert c
           \<lparr>ctx_store = store, ctx_cert = leaf, ctx_chain = leaf # rest, ctx_param = param,
            ctx_ignore_expiration = allow_expired_certificate v\<rparr>"
  shows "\<exists>names. subject_alt_name leaf = Some names
           \<and> doVerifyCertChain c v thread (leaf # rest) param =
               (if subject_alt_name_matchers v = [] then Inr (successful, v)
                else if \<exists>g \<in> set names. \<exists>m \<in> set (subject_alt_name_matchers v). m g
                  then Inr (successful, v)
                else Inr (failed_with ''verify cert failed: SAN match'', inc_fail_verify_san v))
           \<and> fail_verify_error (stats (inc_fail_verify_san v)) = fail_verify_error (stats v)
           \<and> fail_verify_san (stats (inc_fail_verify_san v)) = fail_verify_san (stats v) + 1"
proof -
  from getTrustBundleStore_Some_san[OF assms(2)]
  obtain names where names: "subject_alt_name leaf = Some names" by blast
  have m: "matchSubjectAltName v leaf =
             Inr (\<exists>g \<in> set names. \<exists>m \<in> set (subject_alt_name_matchers v). m g)"
    by (simp add: matchSubjectAltName_def names match_san_names_iff)
  have "verifyCertChainUsingTrustBundleStore c v thread leaf (leaf # rest) param '''' =
          verify_with_store c v store leaf (leaf # rest) param ''''"
    using assms(1,2) by (simp add: verifyCertChainUsingTrustBundleStore_def)
  also have "\<dots> =
      (if subject_alt_name_matchers v = [] then Inr (True, '''', v)
       else if \<exists>g \<in> set names. \<exists>m \<in> set (subject_alt_name_matchers v). m g
         then Inr (True, '''', v)
       else Inr (False, ''verify cert failed: SAN match'', inc_fail_verify_san v))"
    using assms(3,4,5) by (auto simp: verify_with_store_def m)
  finally have "doVerifyCertChain c v thread (leaf # rest) param =
               (if subject_alt_name_matchers v = [] then Inr (successful, v)
                else if \<exists>g \<in> set names. \<exists>m \<in> set (subject_alt_name_matchers v). m g
                  then Inr (successful, v)
                else Inr (failed_with ''verify cert failed: SAN match'', inc_fail_verify_san v))"
    by (auto simp: doVerifyCertChain_leaf)
  with names show ?thesis
    by (simp add: inc_fail_verify_san_stats)
qed

theorem san_matcher_policy_witness:
  "certificatePrecheck (example_cert ''workload'' 0 0x80 (Some [dns_name ''w.example.org'', uri_name ''spiffe://example.org/workload'']))
   \<and> getTrustBundleStore example_collaborators
        (example_validator [\<lambda>g. name_type g = GEN_URI \<and> name_data g = ''spiffe://example.org/other''])
        0 (example_cert ''workload'' 0 0x80 (Some [dns_name ''w.example.org'', uri_name ''spiffe://example.org/workload'']))
      = Some [example_cert ''ca.example.org'' 0x10 0x06 None]
   \<and> doVerifyCertChain example_collaborators
        (example_validator [\<lambda>g. name_type g = GEN_URI \<and> name_data g = ''spiffe://example.org/other''])
        0 [example_cert ''workload'' 0 0x80 (Some [dns_name ''w.example.org'', uri_name ''spiffe://example.org/workload''])] ()
      = Inr (failed_with ''verify cert failed: SAN match'',
             inc_fail_verify_san
               (example_validator [\<lambda>g. name_type g = GEN_URI \<and> name_data g = ''spiffe://example.org/other'']))"
proof -
  let ?names = "[dns_name ''w.example.org'', uri_name ''spiffe://example.org/workload'']"
  let ?leaf = "example_cert ''workload'' 0 0x80 (Some ?names)"
  let ?m = "\<lambda>g. name_type g = GEN_URI \<and> name_data g = ''spiffe://example.org/other''"
  let ?v = "example_validator [?m]"
  let ?store = "[example_cert ''ca.example.org'' 0x10 0x06 None]"
  have pre: "certificatePrecheck ?leaf"
    by (simp add: certificatePrecheck_iff example_cert_def EXFLAG_CA_def KU_CRL_SIGN_def
        KU_KEY_CERT_SIGN_def)
  have store: "getTrustBundleStore example_collaborators ?v 0 ?leaf = Some ?store"
    by (simp add: getTrustBundleStore_find example_defs example_extract)
  have init: "X509_STORE_CTX_init example_collaborators ?store ?leaf (?leaf # [])"
    by (simp add: example_collaborators_def)
  have par: "X509_VERIFY_PARAM_set1 example_collaborators ()"
    by (simp add: example_collaborators_def)
  have ver: "X509_verify_cert example_collaborators
           \<lparr>ctx_store = ?store, ctx_cert = ?leaf, ctx_chain = ?leaf # [], ctx_param = (),
            ctx_ignore_expiration = allow_expired_certificate ?v\<rparr>"
    by (simp add: example_collaborators_def)
  have san: "subject_alt_name ?leaf = Some ?names"
    by (simp add: example_cert_def)
  have nomatch: "\<not> (\<exists>g \<in> set ?names. \<exists>m \<in> set (subject_alt_name_matchers ?v). m g)"
    by (simp add: example_validator_def uri_name_def dns_name_def)
  have ne: "subject_alt_name_matchers ?v \<noteq> []"
    by (simp add: example_validator_def)
  from san_matcher_policy[OF pre store init par ver]
  have "doVerifyCertChain example_collaborators ?v 0 [?leaf] () =
          Inr (failed_with ''verify cert failed: SAN match'', inc_fail_verify_san ?v)"
    using san nomatch ne by auto
  with pre store show ?thesis by blast
qed

text \<open>
  C9. When \<open>getTrustBundleStore\<close> gives a store, the leaf has a SAN extension with a
  \<open>GEN_URI\<close> entry whose extracted trust domain is not empty, and \<open>matchSubjectAltName\<close>
  returns a value; so neither \<open>verifyCertChainUsingTrustBundleStore\<close> nor
  \<open>doVerifyCertChain\<close> ever ends in the assertion.
\<close>

theorem matchSubjectAltName_assert_unreachable:
  "(getTrustBundleStore c v thread leaf = Some store \<longrightarrow>
      (\<exists>names g. subject_alt_name leaf = Some names
         \<and> find (\<lambda>g. name_type g = GEN_URI) names = Some g
         \<and> extractTrustDomain (generalNameAsString c g) \<noteq> ''''
         \<and> matchSubjectAltName v leaf =
             Inr (match_san_names (subject_alt_name_matchers v) names)))
   \<and> (\<forall>msg. verifyCertChainUsingTrustBundleStore c v thread leaf chain param details \<noteq> Inl msg)
   \<and> (\<forall>msg. doVerifyCertChain c v thread chain param \<noteq> Inl msg)"
proof -
  have a: "getTrustBundleStore c v thread leaf' = Some store' \<Longrightarrow>
      (\<exists>names g. subject_alt_name leaf' = Some names
         \<and> find (\<lambda>g. name_type g = GEN_URI) names = Some g
         \<and> extractTrustDomain (generalNameAsString c g) \<noteq> ''''
         \<and> matchSubjectAltName v leaf' =
             Inr (match_san_names (subject_alt_name_matchers v) names))" for leaf' store'
    using getTrustBundleStore_Some_san[of c v thread leaf' store']
    by (auto simp: matchSubjectAltName_def)
  have w: "verify_with_store c v store' leaf' chain' param details' \<noteq> Inl msg"
    if "getTrustBundleStore c v thread leaf' = Some store'" for leaf' store' chain' details' msg
  proof -
    from a[OF that] obtain names where
      "matchSubjectAltName v leaf' = Inr (match_san_names (subject_alt_name_matchers v) names)"
      by blast
    then show ?thesis
      by (simp add: verify_with_store_def Let_def)
  qed
  have b: "verifyCertChainUsingTrustBundleStore c v thread leaf' chain' param details' \<noteq> Inl msg"
    for leaf' chain' details' msg
    using w[of leaf' _ chain' details' msg]
    by (cases "getTrustBundleStore c v thread leaf'")
       (simp_all add: verifyCertChainUsingTrustBundleStore_def)
  have d: "doVerifyCertChain c v thread chain param \<noteq> Inl msg" for msg
  proof (cases chain)
    case Nil
    then show ?thesis by (simp add: doVerifyCertChain_def)
  next
    case (Cons l r)
    then show ?thesis
      using b[of l "l # r" "''''" msg]
      by (auto simp: doVerifyCertChain_leaf split: sum.splits prod.splits)
  qed
  show ?thesis using a b d by blast
qed

theorem matchSubjectAltName_assert_unreachable_witness:
  "getTrustBundleStore example_collaborators (example_validator []) 0
     (example_cert ''workload'' 0 0x80 (Some [uri_name ''spiffe://example.org/workload'']))
     = Some [example_cert ''ca.example.org'' 0x10 0x06 None]
   \<and> (\<exists>names g.
         subject_alt_name (example_cert ''workload'' 0 0x80
            (Some [uri_name ''spiffe://example.org/workload''])) = Some names
         \<and> find (\<lambda>g. name_type g = GEN_URI) names = Some g
         \<and> extractTrustDomain (generalNameAsString example_collaborators g) \<noteq> ''''
         \<and> matchSubjectAltName (example_validator [])
              (example_cert ''workload'' 0 0x80 (Some [uri_name ''spiffe://example.org/workload'']))
             = Inr (match_san_names (subject_alt_name_matchers (example_validator [])) names))"
proof -
  let ?leaf = "example_cert ''workload'' 0 0x80 (Some [uri_name ''spiffe://example.org/workload''])"
  have store: "getTrustBundleStore example_collaborators (example_validator []) 0 ?leaf
                 = Some [example_cert ''ca.example.org'' 0x10 0x06 None]"
    by (simp add: getTrustBundleStore_find example_defs example_extract)
  show ?thesis
    using store
      matchSubjectAltName_assert_unreachable
        [of example_collaborators "example_validator []" 0 ?leaf
            "[example_cert ''ca.example.org'' 0x10 0x06 None]" "[]" "()" "''''",
         THEN conjunct1]
    by blast
qed

subsection \<open>A first URI with an empty authority\<close>

text \<open>
  C10, as stated, fails: a leaf whose first URI SAN is \<open>spiffe://\<close> and whose extension
  flags carry the CA bit is rejected by the precheck, which comes first, and the
  diagnostic is \<open>verify cert failed: cert precheck\<close>.
\<close>

theorem empty_authority_precheck_counterexample:
  "find (\<lambda>g. name_type g = GEN_URI) [uri_name ''spiffe://''] = Some (uri_name ''spiffe://'')
   \<and> generalNameAsString example_collaborators (uri_name ''spiffe://'') = ''spiffe://''
   \<and> doVerifyCertChain example_collaborators (example_validator []) 0
        [example_cert ''workload'' 0x10 0x80 (Some [uri_name ''spiffe://''])] ()
      = Inr (failed_with ''verify cert failed: cert precheck'',
             inc_fail_verify_error (example_validator []))
   \<and> doVerifyCertChain example_collaborators (example_validator []) 0
        [example_cert ''workload'' 0x10 0x80 (Some [uri_name ''spiffe://''])] ()
      \<noteq> Inr (failed_with ''verify cert failed: no trust bundle store'',
             inc_fail_verify_error (example_validator []))"
proof -
  have "\<not> certificatePrecheck (example_cert ''workload'' 0x10 0x80 (Some [uri_name ''spiffe://'']))"
    by (simp add: certificatePrecheck_iff example_cert_def EXFLAG_CA_def)
  then have "doVerifyCertChain example_collaborators (example_validator []) 0
        [example_cert ''workload'' 0x10 0x80 (Some [uri_name ''spiffe://''])] ()
      = Inr (failed_with ''verify cert failed: cert precheck'',
             inc_fail_verify_error (example_validator []))"
    by (simp add: doVerifyCertChain_leaf verifyCertChainUsingTrustBundleStore_def)
  then show ?thesis
    by (simp add: uri_name_def example_collaborators_def failed_with_def)
qed

text \<open>
  C10, amended. For a leaf whose first \<open>GEN_URI\<close> entry reads \<open>spiffe://\<close> or
  \<open>spiffe:///\<close> followed by a path, \<open>getTrustBundleStore\<close> gives no store, whatever the
  snapshot maps (the empty key included) and whatever entries follow the first URI; so
  verification fails, with \<open>verify cert failed: no trust bundle store\<close> when the leaf
  passes the precheck and with the precheck's diagnostic when it does not.
\<close>

theorem empty_authority_no_store:
  assumes "subject_alt_name leaf = Some names"
    and "find (\<lambda>g. name_type g = GEN_URI) names = Some g"
    and "generalNameAsString c g = ''spiffe://''
         \<or> (\<exists>path. generalNameAsString c g = ''spiffe:///'' @ path)"
  shows "getTrustBundleStore c v thread leaf = None
         \<and> doVerifyCertChain c v thread (leaf # rest) param =
             (if certificatePrecheck leaf then
                Inr (failed_with ''verify cert failed: no trust bundle store'',
                     inc_fail_verify_error v)
              else
                Inr (failed_with ''verify cert failed: cert precheck'',
                     inc_fail_verify_error v))"
proof -
  have "extractTrustDomain (generalNameAsString c g) = ''''"
    using assms(3) extract_empty_authority by auto
  then have none: "getTrustBundleStore c v thread leaf = None"
    using assms(1,2) by (simp add: getTrustBundleStore_find)
  then show ?thesis
    by (simp add: doVerifyCertChain_leaf verifyCertChainUsingTrustBundleStore_def)
qed

theorem empty_authority_no_store_witness:
  "subject_alt_name (example_cert ''workload'' 0 0x80
      (Some [dns_name ''w'', uri_name ''spiffe:///workload'', uri_name ''spiffe://example.org/workload'']))
     = Some [dns_name ''w'', uri_name ''spiffe:///workload'', uri_name ''spiffe://example.org/workload'']
   \<and> find (\<lambda>g. name_type g = GEN_URI)
        [dns_name ''w'', uri_name ''spiffe:///workload'', uri_name ''spiffe://example.org/workload'']
      = Some (uri_name ''spiffe:///workload'')
   \<and> generalNameAsString example_collaborators (uri_name ''spiffe:///workload'')
      = ''spiffe:///'' @ ''workload''
   \<and> trust_bundle_stores (tls (example_validator []) 0) '''' \<noteq> None
   \<and> trust_bundle_stores (tls (example_validator []) 0) ''example.org'' \<noteq> None
   \<and> certificatePrecheck (example_cert ''workload'' 0 0x80
      (Some [dns_name ''w'', uri_name ''spiffe:///workload'', uri_name ''spiffe://example.org/workload'']))
   \<and> getTrustBundleStore example_collaborators (example_validator []) 0
        (example_cert ''workload'' 0 0x80
          (Some [dns_name ''w'', uri_name ''spiffe:///workload'', uri_name ''spiffe://example.org/workload'']))
      = None
   \<and> doVerifyCertChain example_collaborators (example_validator []) 0
        [example_cert ''workload'' 0 0x80
          (Some [dns_name ''w'', uri_name ''spiffe:///workload'', uri_name ''spiffe://example.org/workload''])] ()
      = Inr (failed_with ''verify cert failed: no trust bundle store'',
             inc_fail_verify_error (example_validator []))"
proof -
  let ?names = "[dns_name ''w'', uri_name ''spiffe:///workload'', uri_name ''spiffe://example.org/workload'']"
  let ?leaf = "example_cert ''workload'' 0 0x80 (Some ?names)"
  have san: "subject_alt_name ?leaf = Some ?names"
    by (simp add: example_cert_def)
  have fnd: "find (\<lambda>g. name_type g = GEN_URI) ?names = Some (uri_name ''spiffe:///workload'')"
    by (simp add: uri_name_def dns_name_def)
  have str: "generalNameAsString example_collaborators (uri_name ''spiffe:///workload'')
               = ''spiffe:///'' @ ''workload''"
    by (simp add: example_collaborators_def uri_name_def)
  have keys: "trust_bundle_stores (tls (example_validator []) 0) '''' \<noteq> None"
    "trust_bundle_stores (tls (example_validator []) 0) ''example.org'' \<noteq> None"
    by (simp_all add: example_validator_def example_snapshot_def)
  have pre: "certificatePrecheck ?leaf"
    by (simp add: certificatePrecheck_iff example_cert_def EXFLAG_CA_def KU_CRL_SIGN_def
        KU_KEY_CERT_SIGN_def)
  have str': "generalNameAsString example_collaborators (uri_name ''spiffe:///workload'') = ''spiffe://''
         \<or> (\<exists>path. generalNameAsString example_collaborators (uri_name ''spiffe:///workload'')
               = ''spiffe:///'' @ path)"
    using str by blast
  show ?thesis
    using san fnd str keys pre
      empty_authority_no_store[OF san fnd str', of "example_validator []" 0 "[]" "()"]
    by simp
qed

section \<open>Expiration\<close>

lemma days_loop_none:
  assumes "cert \<in> set certs" and "getDaysUntilExpiration c cert = None"
  shows "days_loop c ret certs = None"
  using assms
proof (induction certs arbitrary: ret)
  case Nil
  then show ?case by simp
next
  case (Cons x xs)
  show ?case
  proof (cases "getDaysUntilExpiration c x")
    case None
    then show ?thesis by simp
  next
    case (Some t)
    with Cons.prems have "cert \<in> set xs" by auto
    with Cons.IH Cons.prems(2) Some show ?thesis by simp
  qed
qed

lemma days_loop_fold:
  assumes "map (getDaysUntilExpiration c) certs = map Some ds"
  shows "days_loop c ret certs = Some (fold min ds ret)"
  using assms
proof (induction certs arbitrary: ret ds)
  case Nil
  then show ?case by simp
next
  case (Cons x xs)
  then obtain t ts where ds: "ds = t # ts" and t: "getDaysUntilExpiration c x = Some t"
    and ts: "map (getDaysUntilExpiration c) xs = map Some ts"
    by (cases ds) auto
  have "(if t < ret then t else ret) = min t ret"
    by (auto simp: min_def)
  moreover have "days_loop c ret (x # xs) = days_loop c (if t < ret then t else ret) xs"
    using t by simp
  ultimately have "days_loop c ret (x # xs) = days_loop c (min t ret) xs"
    by (simp only:)
  also have "\<dots> = Some (fold min ts (min t ret))"
    by (rule Cons.IH[OF ts])
  finally show ?case by (simp add: ds)
qed

lemma days_loop_min:
  assumes "map (getDaysUntilExpiration c) certs = map Some ds"
  shows "days_loop c ret certs = Some (Min (insert ret (set ds)))"
proof -
  have "Min (set (ret # ds)) = fold min ds ret"
    by (rule Min.set_eq_fold)
  then show ?thesis
    using days_loop_fold[OF assms, of ret] by simp
qed

lemma word32_le_max: "(w :: 32 word) \<le> uint32_max"
  unfolding uint32_max_def by (simp add: word_le_def) (use uint_lt2p[of w] in simp)

text \<open>
  C6. \<open>daysUntilFirstCertExpires\<close> gives the maximum 32-bit value when the worker's
  snapshot has no CA certificate, nothing when the days of some certificate cannot be
  computed, and otherwise the minimum of the certificates' days; for 10, 5 and 30 days
  that is 5.
\<close>

theorem daysUntilFirstCertExpires_minimum:
  "(ca_certs (tls v thread) = [] \<longrightarrow>
      daysUntilFirstCertExpires c v thread = Some 0xFFFFFFFF)
   \<and> ((\<exists>cert \<in> set (ca_certs (tls v thread)). getDaysUntilExpiration c cert = None) \<longrightarrow>
      daysUntilFirstCertExpires c v thread = None)
   \<and> (map (getDaysUntilExpiration c) (ca_certs (tls v thread)) = map Some days \<and> days \<noteq> [] \<longrightarrow>
      daysUntilFirstCertExpires c v thread = Some (Min (set days)))
   \<and> (map (getDaysUntilExpiration c) (ca_certs (tls v thread)) = [Some 10, Some 5, Some 30] \<longrightarrow>
      daysUntilFirstCertExpires c v thread = Some 5)"
proof -
  have a: "ca_certs (tls v thread) = [] \<Longrightarrow>
      daysUntilFirstCertExpires c v thread = Some 0xFFFFFFFF"
    by (simp add: daysUntilFirstCertExpires_def uint32_max_def)
  have b: "\<exists>cert \<in> set (ca_certs (tls v thread)). getDaysUntilExpiration c cert = None \<Longrightarrow>
      daysUntilFirstCertExpires c v thread = None"
    using days_loop_none[of _ "ca_certs (tls v thread)" c uint32_max]
    by (auto simp: daysUntilFirstCertExpires_def Let_def)
  have m: "daysUntilFirstCertExpires c v thread = Some (Min (set ds))"
    if h: "map (getDaysUntilExpiration c) (ca_certs (tls v thread)) = map Some ds" and ne: "ds \<noteq> []"
    for ds
  proof -
    from h ne have "ca_certs (tls v thread) \<noteq> []" by auto
    then have "daysUntilFirstCertExpires c v thread = Some (Min (insert uint32_max (set ds)))"
      using days_loop_min[OF h, of uint32_max] by (simp add: daysUntilFirstCertExpires_def)
    moreover have "Min (insert uint32_max (set ds)) = min uint32_max (Min (set ds))"
      using ne by (intro Min_insert) simp_all
    ultimately show ?thesis
      using word32_le_max[of "Min (set ds)"] by (simp add: min_def)
  qed
  have e: "map (getDaysUntilExpiration c) (ca_certs (tls v thread)) = [Some 10, Some 5, Some 30] \<Longrightarrow>
      daysUntilFirstCertExpires c v thread = Some 5"
    using m[of "[10, 5, 30]"] by simp
  show ?thesis using a b m e by blast
qed

theorem daysUntilFirstCertExpires_minimum_witness:
  "daysUntilFirstCertExpires example_collaborators (validator_with_ca_certs []) 0 = Some 0xFFFFFFFF
   \<and> map (getDaysUntilExpiration example_collaborators)
        (ca_certs (tls (validator_with_ca_certs
           [example_cert ''ca-10-days'' 0x10 0x06 None, example_cert ''ca-5-days'' 0x10 0x06 None,
            example_cert ''ca-30-days'' 0x10 0x06 None]) 0))
      = [Some 10, Some 5, Some 30]
   \<and> daysUntilFirstCertExpires example_collaborators
        (validator_with_ca_certs
           [example_cert ''ca-10-days'' 0x10 0x06 None, example_cert ''ca-5-days'' 0x10 0x06 None,
            example_cert ''ca-30-days'' 0x10 0x06 None]) 0
      = Some 5
   \<and> daysUntilFirstCertExpires example_collaborators
        (validator_with_ca_certs
           [example_cert ''ca-10-days'' 0x10 0x06 None, example_cert ''ca.example.org'' 0x10 0x06 None]) 0
      = None"
proof -
  let ?three = "[example_cert ''ca-10-days'' 0x10 0x06 None, example_cert ''ca-5-days'' 0x10 0x06 None,
            example_cert ''ca-30-days'' 0x10 0x06 None]"
  let ?two = "[example_cert ''ca-10-days'' 0x10 0x06 None, example_cert ''ca.example.org'' 0x10 0x06 None]"
  have e: "ca_certs (tls (validator_with_ca_certs []) 0) = []"
    by (simp add: validator_with_ca_certs_def)
  have d: "map (getDaysUntilExpiration example_collaborators)
             (ca_certs (tls (validator_with_ca_certs ?three) 0)) = [Some 10, Some 5, Some 30]"
    by (simp add: validator_with_ca_certs_def example_collaborators_def example_days_def
        example_cert_def)
  have n: "\<exists>cert \<in> set (ca_certs (tls (validator_with_ca_certs ?two) 0)).
             getDaysUntilExpiration example_collaborators cert = None"
    by (simp add: validator_with_ca_certs_def example_collaborators_def example_days_def
        example_cert_def)
  have 1: "daysUntilFirstCertExpires example_collaborators (validator_with_ca_certs []) 0
             = Some 0xFFFFFFFF"
    using e daysUntilFirstCertExpires_minimum
            [of "validator_with_ca_certs []" 0 example_collaborators, THEN conjunct1]
    by simp
  have 2: "daysUntilFirstCertExpires example_collaborators (validator_with_ca_certs ?three) 0
             = Some 5"
    using d daysUntilFirstCertExpires_minimum
            [of "validator_with_ca_certs ?three" 0 example_collaborators,
             THEN conjunct2, THEN conjunct2, THEN conjunct2]
    by simp
  have 3: "daysUntilFirstCertExpires example_collaborators (validator_with_ca_certs ?two) 0
             = None"
    using n daysUntilFirstCertExpires_minimum
            [of "validator_with_ca_certs ?two" 0 example_collaborators,
             THEN conjunct2, THEN conjunct1]
    by blast
  show ?thesis using 1 2 3 d by blast
qed

section \<open>Loading and reloading the bundle map\<close>

lemma c_str_no_nul: "CHR 0x00 \<notin> set s \<Longrightarrow> c_str s = s"
  by (auto simp: c_str_def takeWhile_eq_all_conv)

lemma StartsWith_c_str:
  "StartsWith (c_str s) ''spiffe://'' = StartsWith s ''spiffe://''"
proof
  assume "StartsWith (c_str s) ''spiffe://''"
  then obtain r where r: "c_str s = ''spiffe://'' @ r"
    using StartsWith_iff by blast
  have "s = c_str s @ dropWhile (\<lambda>ch. ch \<noteq> CHR 0x00) s"
    by (simp add: c_str_def)
  then have "s = ''spiffe://'' @ (r @ dropWhile (\<lambda>ch. ch \<noteq> CHR 0x00) s)"
    using r by (metis append_assoc)
  then show "StartsWith s ''spiffe://''"
    using StartsWith_iff by blast
next
  assume "StartsWith s ''spiffe://''"
  then obtain r where "s = ''spiffe://'' @ r"
    using StartsWith_iff by blast
  then have "c_str s = ''spiffe://'' @ c_str r"
    by (simp add: c_str_def)
  then show "StartsWith (c_str s) ''spiffe://''"
    using StartsWith_iff by blast
qed

text \<open>What the scan of one certificate's SAN entries does to the snapshot.\<close>

lemma scan_san_names_no_spiffe:
  assumes "\<not> list_ex (\<lambda>g. name_type g = GEN_URI \<and> StartsWith (name_data g) ''spiffe://'') names"
  shows "scan_san_names c domain_name parsed data names = Some data"
  using assms by (induction names) (auto simp: StartsWith_c_str)

lemma scan_san_names_Some:
  assumes "scan_san_names c domain_name parsed data names = Some data'"
    and "list_ex (\<lambda>g. name_type g = GEN_URI \<and> StartsWith (name_data g) ''spiffe://'') names"
  shows "\<exists>store. trust_bundle_stores data domain_name = Some store
           \<and> data' = data\<lparr>trust_bundle_stores :=
                            (trust_bundle_stores data)
                              (domain_name \<mapsto> snd (X509_STORE_add_cert c store parsed)),
                          ca_certs := ca_certs data @ [parsed]\<rparr>"
  using assms
proof (induction names)
  case Nil
  then show ?case by simp
next
  case (Cons n ns)
  show ?case
  proof (cases "name_type n = GEN_URI \<and> StartsWith (name_data n) ''spiffe://''")
    case True
    with Cons.prems(1) have eq:
      "(if domain_name \<noteq> extractTrustDomain (c_str (name_data n)) then None
        else (case trust_bundle_stores data domain_name of
                None \<Rightarrow> None
              | Some store \<Rightarrow>
                  (case X509_STORE_add_cert c store parsed of
                     (ok, store') \<Rightarrow>
                       if \<not> ok then None
                       else Some (data\<lparr>trust_bundle_stores :=
                                         (trust_bundle_stores data)(domain_name \<mapsto> store'),
                                       ca_certs := ca_certs data @ [parsed]\<rparr>)))) = Some data'"
      by (simp add: StartsWith_c_str Let_def)
    then obtain store where st: "trust_bundle_stores data domain_name = Some store"
      by (cases "trust_bundle_stores data domain_name") (auto split: if_splits)
    obtain ok store' where add: "X509_STORE_add_cert c store parsed = (ok, store')"
      by (cases "X509_STORE_add_cert c store parsed")
    from eq st add have d': "data' = data\<lparr>trust_bundle_stores :=
                                         (trust_bundle_stores data)(domain_name \<mapsto> store'),
                                       ca_certs := ca_certs data @ [parsed]\<rparr>"
      by (simp split: if_splits)
    have s': "snd (X509_STORE_add_cert c store parsed) = store'"
      using add by simp
    show ?thesis
    proof (intro exI[of _ store] conjI)
      show "trust_bundle_stores data domain_name = Some store" by (rule st)
      show "data' = data\<lparr>trust_bundle_stores :=
                            (trust_bundle_stores data)
                              (domain_name \<mapsto> snd (X509_STORE_add_cert c store parsed)),
                          ca_certs := ca_certs data @ [parsed]\<rparr>"
        unfolding s' by (rule d')
    qed
  next
    case False
    with Cons.prems have "scan_san_names c domain_name parsed data ns = Some data'"
      and "list_ex (\<lambda>g. name_type g = GEN_URI \<and> StartsWith (name_data g) ''spiffe://'') ns"
      by (auto simp: StartsWith_c_str Let_def split: if_splits)
    then show ?thesis by (rule Cons.IH)
  qed
qed

lemma scan_san_names_mismatch:
  assumes "find (\<lambda>g. name_type g = GEN_URI \<and> StartsWith (c_str (name_data g)) ''spiffe://'')
             san_names = Some g"
    and "extractTrustDomain (c_str (name_data g)) \<noteq> domain_name"
  shows "scan_san_names c domain_name x509 data san_names = None"
  using assms
proof (induction san_names)
  case Nil
  then show ?case by simp
next
  case (Cons n ns)
  show ?case
  proof (cases "name_type n = GEN_URI \<and> StartsWith (c_str (name_data n)) ''spiffe://''")
    case True
    with Cons.prems have "g = n" by simp
    with True Cons.prems(2) show ?thesis by auto
  next
    case False
    with Cons.prems have "find (\<lambda>g. name_type g = GEN_URI
        \<and> StartsWith (c_str (name_data g)) ''spiffe://'') ns = Some g"
      by simp
    from Cons.IH[OF this Cons.prems(2)] False show ?thesis by auto
  qed
qed

lemma load_cert_mismatch:
  assumes "d2i_X509 c (Base64_decode c cert) = Some x509"
    and "subject_alt_name x509 = Some san_names"
    and "find (\<lambda>g. name_type g = GEN_URI \<and> StartsWith (c_str (name_data g)) ''spiffe://'')
           san_names = Some g"
    and "extractTrustDomain (c_str (name_data g)) \<noteq> domain_name"
  shows "load_cert c domain_name data cert = None"
proof -
  have "scan_san_names c domain_name x509 data san_names = None"
    by (rule scan_san_names_mismatch[OF assms(3,4)])
  then show ?thesis
    using assms(1,2) by (simp add: load_cert_def Let_def)
qed

lemma load_certs_fails:
  assumes "cert \<in> set certs" and "\<And>data. load_cert c domain_name data cert = None"
  shows "load_certs c domain_name data certs = None"
  using assms(1)
proof (induction certs arbitrary: data)
  case Nil
  then show ?case by simp
next
  case (Cons x xs)
  show ?case
  proof (cases "load_cert c domain_name data x")
    case None
    then show ?thesis by simp
  next
    case (Some data')
    with assms(2) have "x \<noteq> cert" by auto
    with Cons.prems have "cert \<in> set xs" by simp
    from Cons.IH[OF this] Some show ?thesis by simp
  qed
qed

lemma load_keys_fails:
  assumes "key \<in> set keys" and "key_use key = ''x509-svid''"
    and "\<And>data. load_certs c domain_name data (key_x5c key) = None"
  shows "load_keys c domain_name data keys = None"
  using assms(1)
proof (induction keys arbitrary: data)
  case Nil
  then show ?case by simp
next
  case (Cons k ks)
  show ?case
  proof (cases "k = key")
    case True
    then show ?thesis using assms(2,3) by simp
  next
    case False
    with Cons.prems have "key \<in> set ks" by simp
    from Cons.IH[OF this] show ?thesis
      by (simp split: option.splits)
  qed
qed

lemma load_domain_fails:
  assumes "\<And>data. load_keys c domain_name data (domain_keys domain_object) = None"
  shows "load_domain c data domain_name domain_object = None"
  using assms by (simp add: load_domain_def Let_def)

lemma iterate_domains_fails:
  assumes "(domain_name, domain_object) \<in> set domains"
    and "\<And>data. load_domain c data domain_name domain_object = None"
  shows "iterate_domains c data domains = None"
  using assms(1)
proof (induction domains arbitrary: data)
  case Nil
  then show ?case by simp
next
  case (Cons d ds)
  obtain n obj where d: "d = (n, obj)" by (cases d)
  show ?case
  proof (cases "d = (domain_name, domain_object)")
    case True
    then show ?thesis using assms(2) by simp
  next
    case False
    with Cons.prems have "(domain_name, domain_object) \<in> set ds" by simp
    from Cons.IH[OF this] show ?thesis
      by (simp add: d split: option.splits)
  qed
qed

lemma on_file_modified_cases:
  "on_file_modified c fs v =
     (case loadTrustBundleMap c fs (trust_bundle_file_name v) of
        None \<Rightarrow> v
      | Some loaded \<Rightarrow> v\<lparr>main_thread_dispatcher := main_thread_dispatcher v @ [loaded]\<rparr>)"
  by (simp add: on_file_modified_def updateSpiffeDataAsync_def split: option.splits)

lemma on_file_modified_tls: "tls (on_file_modified c fs v) = tls v"
  by (simp add: on_file_modified_cases split: option.splits)

lemma find_cong_set:
  assumes "\<And>x. x \<in> set xs \<Longrightarrow> P x = Q x"
  shows "find P xs = find Q xs"
  using assms by (induction xs) auto

text \<open>
  C1, amended. The callback posts a new snapshot exactly when the load gave one, and
  leaves every slot as it was. When the document holds, under a domain key and in a key
  object whose \<open>use\<close> is \<open>x509-svid\<close>, a certificate whose URI SAN values hold no NUL
  byte and whose first \<open>GEN_URI\<close> SAN entry starting with \<open>spiffe://\<close> has an extracted
  trust domain other than the domain key, \<open>loadTrustBundleMap\<close> gives no snapshot, the
  callback leaves the validator as it was, and verifications give what they gave before.
\<close>

theorem loadTrustBundleMap_domain_mismatch:
  "on_file_modified c fs v =
     (case loadTrustBundleMap c fs (trust_bundle_file_name v) of
        None \<Rightarrow> v
      | Some loaded \<Rightarrow> v\<lparr>main_thread_dispatcher := main_thread_dispatcher v @ [loaded]\<rparr>)
   \<and> tls (on_file_modified c fs v) = tls v
   \<and> (fs (trust_bundle_file_name v) = JsonParsed doc
        \<and> json_trust_domains doc = Some domains
        \<and> (domain_name, domain_object) \<in> set domains
        \<and> key \<in> set (domain_keys domain_object)
        \<and> key_use key = ''x509-svid''
        \<and> cert \<in> set (key_x5c key)
        \<and> d2i_X509 c (Base64_decode c cert) = Some parsed
        \<and> subject_alt_name parsed = Some san_names
        \<and> (\<forall>n \<in> set san_names. name_type n = GEN_URI \<longrightarrow> CHR 0x00 \<notin> set (name_data n))
        \<and> find (\<lambda>g. name_type g = GEN_URI \<and> StartsWith (name_data g) ''spiffe://'')
             san_names = Some g
        \<and> extractTrustDomain (name_data g) \<noteq> domain_name
       \<longrightarrow> loadTrustBundleMap c fs (trust_bundle_file_name v) = None
           \<and> on_file_modified c fs v = v
           \<and> doVerifyCertChain c (on_file_modified c fs v) thread chain param
               = doVerifyCertChain c v thread chain param)"
proof (intro conjI impI)
  show "on_file_modified c fs v =
     (case loadTrustBundleMap c fs (trust_bundle_file_name v) of
        None \<Rightarrow> v
      | Some loaded \<Rightarrow> v\<lparr>main_thread_dispatcher := main_thread_dispatcher v @ [loaded]\<rparr>)"
    by (rule on_file_modified_cases)
next
  show "tls (on_file_modified c fs v) = tls v"
    by (rule on_file_modified_tls)
next
  assume h: "fs (trust_bundle_file_name v) = JsonParsed doc
        \<and> json_trust_domains doc = Some domains
        \<and> (domain_name, domain_object) \<in> set domains
        \<and> key \<in> set (domain_keys domain_object)
        \<and> key_use key = ''x509-svid''
        \<and> cert \<in> set (key_x5c key)
        \<and> d2i_X509 c (Base64_decode c cert) = Some parsed
        \<and> subject_alt_name parsed = Some san_names
        \<and> (\<forall>n \<in> set san_names. name_type n = GEN_URI \<longrightarrow> CHR 0x00 \<notin> set (name_data n))
        \<and> find (\<lambda>g. name_type g = GEN_URI \<and> StartsWith (name_data g) ''spiffe://'')
             san_names = Some g
        \<and> extractTrustDomain (name_data g) \<noteq> domain_name"
  have same: "(name_type n = GEN_URI \<and> StartsWith (c_str (name_data n)) ''spiffe://'')
               = (name_type n = GEN_URI \<and> StartsWith (name_data n) ''spiffe://'')" for n
    by (simp add: StartsWith_c_str)
  have f: "find (\<lambda>g. name_type g = GEN_URI \<and> StartsWith (c_str (name_data g)) ''spiffe://'')
             san_names = Some g"
    using h by (simp add: same)
  from h have "g \<in> set san_names" and "name_type g = GEN_URI"
    by (auto simp: find_Some_iff)
  with h have "CHR 0x00 \<notin> set (name_data g)"
    by blast
  then have "c_str (name_data g) = name_data g"
    by (rule c_str_no_nul)
  with h have e: "extractTrustDomain (c_str (name_data g)) \<noteq> domain_name"
    by simp
  have 1: "load_cert c domain_name data cert = None" for data
    using h f e load_cert_mismatch[of c cert parsed san_names g domain_name data] by blast
  have 2: "load_certs c domain_name data (key_x5c key) = None" for data
    using h load_certs_fails[of cert "key_x5c key" c domain_name data] 1 by blast
  have 3: "load_keys c domain_name data (domain_keys domain_object) = None" for data
    using h load_keys_fails[of key "domain_keys domain_object" c domain_name data] 2 by blast
  have 4: "load_domain c data domain_name domain_object = None" for data
    using load_domain_fails[of c domain_name domain_object data] 3 by blast
  have 5: "iterate_domains c data domains = None" for data
    using h iterate_domains_fails[of domain_name domain_object domains c data] 4 by blast
  show l: "loadTrustBundleMap c fs (trust_bundle_file_name v) = None"
    using h 5 by (simp add: loadTrustBundleMap_def)
  then show o: "on_file_modified c fs v = v"
    by (simp add: on_file_modified_cases)
  then show "doVerifyCertChain c (on_file_modified c fs v) thread chain param
               = doVerifyCertChain c v thread chain param"
    by simp
qed

lemma uri_name_sel:
  "name_type (uri_name s) = GEN_URI" "name_data (uri_name s) = s"
  by (simp_all add: uri_name_def)

lemma c_str_examples:
  "c_str ''spiffe://a.org/ca'' = ''spiffe://a.org/ca''"
  "c_str ''spiffe://b.org/x'' = ''spiffe://b.org/x''"
  "c_str ''spiffe://b.org/y'' = ''spiffe://b.org/y''"
  "c_str ''spiffe://a.org'' = ''spiffe://a.org''"
  by (simp_all add: c_str_def)

lemma extract_examples:
  "extractTrustDomain ''spiffe://a.org/ca'' = ''a.org''"
  "extractTrustDomain ''spiffe://b.org/x'' = ''b.org''"
  "extractTrustDomain ''spiffe://b.org/y'' = ''b.org''"
  "extractTrustDomain ''spiffe://a.org'' = ''a.org''"
  using extract_slash[of "''a.org''" "''ca''"] extract_slash[of "''b.org''" "''x''"]
    extract_slash[of "''b.org''" "''y''"] extract_no_slash[of "''a.org''"]
  by (simp_all add: spiffe_prefix_def)

lemma StartsWith_examples:
  "StartsWith ''spiffe://a.org/ca'' ''spiffe://''"
  "StartsWith ''spiffe://b.org/x'' ''spiffe://''"
  "StartsWith ''spiffe://b.org/y'' ''spiffe://''"
  "StartsWith ''spiffe://a.org'' ''spiffe://''"
  by (simp_all add: StartsWith_def)

text \<open>
  C1, as stated, fails. The document below has, under the key \<open>a.org\<close>, a certificate
  with a second SPIFFE URI of trust domain \<open>b.org\<close> (the loop ends at the first SPIFFE
  URI, which matches) and, in a key object whose \<open>use\<close> is not \<open>x509-svid\<close>, a
  certificate of trust domain \<open>b.org\<close> (that key object is not read). The load
  succeeds.
\<close>

theorem loadTrustBundleMap_domain_mismatch_counterexample:
  "d2i_X509 example_collaborators (Base64_decode example_collaborators ''A1'')
     = Some (example_cert ''ca1.a.org'' 0x10 0x06
               (Some [uri_name ''spiffe://a.org/ca'', uri_name ''spiffe://b.org/x'']))
   \<and> d2i_X509 example_collaborators (Base64_decode example_collaborators ''B1'')
     = Some (example_cert ''ca1.b.org'' 0x10 0x06 (Some [uri_name ''spiffe://b.org/y'']))
   \<and> extractTrustDomain ''spiffe://b.org/x'' = ''b.org''
   \<and> extractTrustDomain ''spiffe://b.org/y'' = ''b.org''
   \<and> loadTrustBundleMap example_collaborators
        (\<lambda>file_name. JsonParsed
           \<lparr>json_trust_domains = Some
              [(''a.org'',
                \<lparr>domain_keys =
                   [\<lparr>key_use = ''x509-svid'', key_x5c = [''A1'']\<rparr>,
                    \<lparr>key_use = ''jwt-svid'', key_x5c = [''B1'']\<rparr>]\<rparr>)]\<rparr>)
        ''bundle.json''
     = Some \<lparr>trust_bundle_stores =
               [''a.org'' \<mapsto>
                  [example_cert ''ca1.a.org'' 0x10 0x06
                     (Some [uri_name ''spiffe://a.org/ca'', uri_name ''spiffe://b.org/x''])]],
             ca_certs =
               [example_cert ''ca1.a.org'' 0x10 0x06
                  (Some [uri_name ''spiffe://a.org/ca'', uri_name ''spiffe://b.org/x''])],
             spiffe_refresh_hint = 0, spiffe_sequence = 0\<rparr>"
proof -
  let ?a1 = "example_cert ''ca1.a.org'' 0x10 0x06
               (Some [uri_name ''spiffe://a.org/ca'', uri_name ''spiffe://b.org/x''])"
  have d: "d2i_X509 example_collaborators (Base64_decode example_collaborators ''A1'') = Some ?a1"
    "d2i_X509 example_collaborators (Base64_decode example_collaborators ''B1'')
       = Some (example_cert ''ca1.b.org'' 0x10 0x06 (Some [uri_name ''spiffe://b.org/y'']))"
    by (simp_all add: example_collaborators_def example_d2i_def)
  have dec: "Base64_decode example_collaborators ''A1'' = ''A1''"
    by (simp add: example_collaborators_def)
  have add: "X509_STORE_add_cert example_collaborators [] ?a1 = (True, [?a1])"
    by (simp add: example_collaborators_def)
  have new: "X509_STORE_new example_collaborators = []"
    by (simp add: example_collaborators_def)
  have san: "subject_alt_name ?a1 = Some [uri_name ''spiffe://a.org/ca'', uri_name ''spiffe://b.org/x'']"
    by (simp add: example_cert_def)
  have scan: "scan_san_names example_collaborators ''a.org'' ?a1
                (new_SpiffeData\<lparr>trust_bundle_stores := [''a.org'' \<mapsto> []]\<rparr>)
                [uri_name ''spiffe://a.org/ca'', uri_name ''spiffe://b.org/x'']
              = Some \<lparr>trust_bundle_stores = [''a.org'' \<mapsto> [?a1]], ca_certs = [?a1],
                      spiffe_refresh_hint = 0, spiffe_sequence = 0\<rparr>"
    by (simp add: uri_name_sel c_str_examples StartsWith_examples extract_examples add
        new_SpiffeData_def Let_def)
  have cert: "load_cert example_collaborators ''a.org''
                (new_SpiffeData\<lparr>trust_bundle_stores := [''a.org'' \<mapsto> []]\<rparr>) ''A1''
              = Some \<lparr>trust_bundle_stores = [''a.org'' \<mapsto> [?a1]], ca_certs = [?a1],
                      spiffe_refresh_hint = 0, spiffe_sequence = 0\<rparr>"
    using d(1) san scan by (simp add: load_cert_def dec)
  have dom: "load_domain example_collaborators new_SpiffeData ''a.org''
                \<lparr>domain_keys =
                   [\<lparr>key_use = ''x509-svid'', key_x5c = [''A1'']\<rparr>,
                    \<lparr>key_use = ''jwt-svid'', key_x5c = [''B1'']\<rparr>]\<rparr>
              = Some \<lparr>trust_bundle_stores = [''a.org'' \<mapsto> [?a1]], ca_certs = [?a1],
                      spiffe_refresh_hint = 0, spiffe_sequence = 0\<rparr>"
    using cert by (simp add: load_domain_def new new_SpiffeData_def)
  have "loadTrustBundleMap example_collaborators
        (\<lambda>file_name. JsonParsed
           \<lparr>json_trust_domains = Some
              [(''a.org'',
                \<lparr>domain_keys =
                   [\<lparr>key_use = ''x509-svid'', key_x5c = [''A1'']\<rparr>,
                    \<lparr>key_use = ''jwt-svid'', key_x5c = [''B1'']\<rparr>]\<rparr>)]\<rparr>)
        ''bundle.json''
     = Some \<lparr>trust_bundle_stores = [''a.org'' \<mapsto> [?a1]], ca_certs = [?a1],
             spiffe_refresh_hint = 0, spiffe_sequence = 0\<rparr>"
    using dom by (simp add: loadTrustBundleMap_def)
  then show ?thesis
    using d extract_examples by simp
qed

theorem loadTrustBundleMap_domain_mismatch_witness:
  "loadTrustBundleMap example_collaborators
     (\<lambda>file_name. JsonParsed
        \<lparr>json_trust_domains = Some
           [(''a.org'', \<lparr>domain_keys = [\<lparr>key_use = ''x509-svid'', key_x5c = [''A2'', ''B1'']\<rparr>]\<rparr>)]\<rparr>)
     (trust_bundle_file_name (example_validator [])) = None
   \<and> on_file_modified example_collaborators
        (\<lambda>file_name. JsonParsed
           \<lparr>json_trust_domains = Some
              [(''a.org'', \<lparr>domain_keys = [\<lparr>key_use = ''x509-svid'', key_x5c = [''A2'', ''B1'']\<rparr>]\<rparr>)]\<rparr>)
        (example_validator [])
      = example_validator []"
proof -
  let ?key = "\<lparr>key_use = ''x509-svid'', key_x5c = [''A2'', ''B1'']\<rparr>"
  let ?obj = "\<lparr>domain_keys = [?key]\<rparr>"
  let ?doc = "\<lparr>json_trust_domains = Some [(''a.org'', ?obj)]\<rparr>"
  let ?fs = "\<lambda>file_name :: string. JsonParsed ?doc"
  let ?b1 = "example_cert ''ca1.b.org'' 0x10 0x06 (Some [uri_name ''spiffe://b.org/y''])"
  have h: "?fs (trust_bundle_file_name (example_validator [])) = JsonParsed ?doc
        \<and> json_trust_domains ?doc = Some [(''a.org'', ?obj)]
        \<and> (''a.org'', ?obj) \<in> set [(''a.org'', ?obj)]
        \<and> ?key \<in> set (domain_keys ?obj)
        \<and> key_use ?key = ''x509-svid''
        \<and> ''B1'' \<in> set (key_x5c ?key)
        \<and> d2i_X509 example_collaborators (Base64_decode example_collaborators ''B1'') = Some ?b1
        \<and> subject_alt_name ?b1 = Some [uri_name ''spiffe://b.org/y'']
        \<and> (\<forall>n \<in> set [uri_name ''spiffe://b.org/y''].
               name_type n = GEN_URI \<longrightarrow> CHR 0x00 \<notin> set (name_data n))
        \<and> find (\<lambda>g. name_type g = GEN_URI \<and> StartsWith (name_data g) ''spiffe://'')
             [uri_name ''spiffe://b.org/y''] = Some (uri_name ''spiffe://b.org/y'')
        \<and> extractTrustDomain (name_data (uri_name ''spiffe://b.org/y'')) \<noteq> ''a.org''"
    by (simp add: example_collaborators_def example_d2i_def example_cert_def uri_name_def
        StartsWith_examples extract_examples)
  show ?thesis
    using loadTrustBundleMap_domain_mismatch
      [where c = example_collaborators and fs = ?fs and v = "example_validator []"
         and doc = ?doc and domains = "[(''a.org'', ?obj)]" and domain_name = "''a.org''"
         and domain_object = ?obj and key = ?key and cert = "''B1''" and parsed = ?b1
         and san_names = "[uri_name ''spiffe://b.org/y'']" and g = "uri_name ''spiffe://b.org/y''"
         and thread = 0 and chain = "[]" and param = "()",
       THEN conjunct2, THEN conjunct2, THEN mp, OF h]
    by simp
qed

lemma example_load_a2:
  "loadTrustBundleMap example_collaborators
     (\<lambda>file_name. JsonParsed
        \<lparr>json_trust_domains = Some
           [(''a.org'', \<lparr>domain_keys = [\<lparr>key_use = ''x509-svid'', key_x5c = [''A2'']\<rparr>]\<rparr>)]\<rparr>)
     file_name
   = Some \<lparr>trust_bundle_stores =
             [''a.org'' \<mapsto>
                [example_cert ''ca2.a.org'' 0x10 0x06 (Some [uri_name ''spiffe://a.org''])]],
           ca_certs = [example_cert ''ca2.a.org'' 0x10 0x06 (Some [uri_name ''spiffe://a.org''])],
           spiffe_refresh_hint = 0, spiffe_sequence = 0\<rparr>"
proof -
  let ?a2 = "example_cert ''ca2.a.org'' 0x10 0x06 (Some [uri_name ''spiffe://a.org''])"
  have d: "d2i_X509 example_collaborators ''A2'' = Some ?a2"
    by (simp add: example_collaborators_def example_d2i_def)
  have dec: "Base64_decode example_collaborators ''A2'' = ''A2''"
    by (simp add: example_collaborators_def)
  have add: "X509_STORE_add_cert example_collaborators [] ?a2 = (True, [?a2])"
    by (simp add: example_collaborators_def)
  have new: "X509_STORE_new example_collaborators = []"
    by (simp add: example_collaborators_def)
  have san: "subject_alt_name ?a2 = Some [uri_name ''spiffe://a.org'']"
    by (simp add: example_cert_def)
  have scan: "scan_san_names example_collaborators ''a.org'' ?a2
                (new_SpiffeData\<lparr>trust_bundle_stores := [''a.org'' \<mapsto> []]\<rparr>)
                [uri_name ''spiffe://a.org'']
              = Some \<lparr>trust_bundle_stores = [''a.org'' \<mapsto> [?a2]], ca_certs = [?a2],
                      spiffe_refresh_hint = 0, spiffe_sequence = 0\<rparr>"
    by (simp add: uri_name_sel c_str_examples StartsWith_examples extract_examples add
        new_SpiffeData_def Let_def)
  have cert: "load_cert example_collaborators ''a.org''
                (new_SpiffeData\<lparr>trust_bundle_stores := [''a.org'' \<mapsto> []]\<rparr>) ''A2''
              = Some \<lparr>trust_bundle_stores = [''a.org'' \<mapsto> [?a2]], ca_certs = [?a2],
                      spiffe_refresh_hint = 0, spiffe_sequence = 0\<rparr>"
    using d san scan by (simp add: load_cert_def dec)
  have dom: "load_domain example_collaborators new_SpiffeData ''a.org''
                \<lparr>domain_keys = [\<lparr>key_use = ''x509-svid'', key_x5c = [''A2'']\<rparr>]\<rparr>
              = Some \<lparr>trust_bundle_stores = [''a.org'' \<mapsto> [?a2]], ca_certs = [?a2],
                      spiffe_refresh_hint = 0, spiffe_sequence = 0\<rparr>"
    using cert by (simp add: load_domain_def new new_SpiffeData_def)
  show ?thesis
    using dom by (simp add: loadTrustBundleMap_def)
qed


text \<open>
  What each level of the loader does to the snapshot when it succeeds, for a domain whose
  store is registered: the CA list grows by the certificates taken, in order, and the
  store of the domain is the store before with these added.
\<close>

lemma add_certs_simps:
  "add_certs c [] store = store"
  "add_certs c [x] store = snd (X509_STORE_add_cert c store x)"
  "add_certs c (xs @ ys) store = add_certs c ys (add_certs c xs store)"
  by (simp_all add: add_certs_def)

lemma load_cert_Some:
  assumes "load_cert c domain_name data cert = Some data'"
    and "trust_bundle_stores data domain_name = Some store"
  shows "ca_certs data' = ca_certs data @ List.map_filter (spec_accepted_cert c) [cert]
         \<and> trust_bundle_stores data' =
             (trust_bundle_stores data)
               (domain_name \<mapsto> add_certs c (List.map_filter (spec_accepted_cert c) [cert]) store)
         \<and> spiffe_refresh_hint data' = spiffe_refresh_hint data
         \<and> spiffe_sequence data' = spiffe_sequence data"
proof -
  from assms(1) obtain parsed where
    p: "d2i_X509 c (Base64_decode c cert) = Some parsed"
    by (auto simp: load_cert_def Let_def split: if_splits option.splits)
  have triv: "(trust_bundle_stores data)(domain_name \<mapsto> store) = trust_bundle_stores data"
    using assms(2) by (rule map_upd_triv)
  show ?thesis
  proof (cases "subject_alt_name parsed")
    case None
    with assms(1) p have "data' = data"
      by (auto simp: load_cert_def Let_def split: if_splits)
    moreover have "spec_accepted_cert c cert = None"
      using p None by (simp add: spec_accepted_cert_def)
    ultimately show ?thesis
      by (simp add: List.map_filter_simps add_certs_simps triv)
  next
    case (Some names)
    with assms(1) p have scan: "scan_san_names c domain_name parsed data names = Some data'"
      by (auto simp: load_cert_def Let_def split: if_splits)
    show ?thesis
    proof (cases "list_ex (\<lambda>g. name_type g = GEN_URI \<and> StartsWith (name_data g) ''spiffe://'') names")
      case True
      from scan_san_names_Some[OF scan True] assms(2)
      have d': "data' = data\<lparr>trust_bundle_stores :=
                              (trust_bundle_stores data)
                                (domain_name \<mapsto> snd (X509_STORE_add_cert c store parsed)),
                            ca_certs := ca_certs data @ [parsed]\<rparr>"
        by auto
      have "spec_accepted_cert c cert = Some parsed"
        using p Some True by (simp add: spec_accepted_cert_def)
      with d' show ?thesis
        by (simp add: List.map_filter_simps add_certs_simps)
    next
      case False
      from scan_san_names_no_spiffe[OF False, of c domain_name parsed data] scan
      have "data' = data" by simp
      moreover have "spec_accepted_cert c cert = None"
        using p Some False by (simp add: spec_accepted_cert_def)
      ultimately show ?thesis
        by (simp add: List.map_filter_simps add_certs_simps triv)
    qed
  qed
qed

lemma map_filter_Cons_append:
  "List.map_filter f (x # xs) = List.map_filter f [x] @ List.map_filter f xs"
  by (simp add: List.map_filter_simps split: option.splits)

lemma load_certs_Some:
  assumes "load_certs c domain_name data certs = Some data'"
    and "trust_bundle_stores data domain_name = Some store"
  shows "ca_certs data' = ca_certs data @ List.map_filter (spec_accepted_cert c) certs
         \<and> trust_bundle_stores data' =
             (trust_bundle_stores data)
               (domain_name \<mapsto> add_certs c (List.map_filter (spec_accepted_cert c) certs) store)
         \<and> spiffe_refresh_hint data' = spiffe_refresh_hint data
         \<and> spiffe_sequence data' = spiffe_sequence data"
  using assms
proof (induction certs arbitrary: data store)
  case Nil
  then show ?case
    by (simp add: List.map_filter_simps add_certs_simps map_upd_triv)
next
  case (Cons cert certs)
  from Cons.prems(1) obtain data1 where
    one: "load_cert c domain_name data cert = Some data1"
    and rest: "load_certs c domain_name data1 certs = Some data'"
    by (auto split: option.splits)
  define first where "first = List.map_filter (spec_accepted_cert c) [cert]"
  define others where "others = List.map_filter (spec_accepted_cert c) certs"
  have split: "List.map_filter (spec_accepted_cert c) (cert # certs) = first @ others"
    unfolding first_def others_def by (rule map_filter_Cons_append)
  from load_cert_Some[OF one Cons.prems(2)]
  have a: "ca_certs data1 = ca_certs data @ first"
    "trust_bundle_stores data1 = (trust_bundle_stores data)(domain_name \<mapsto> add_certs c first store)"
    "spiffe_refresh_hint data1 = spiffe_refresh_hint data"
    "spiffe_sequence data1 = spiffe_sequence data"
    unfolding first_def by blast+
  have st1: "trust_bundle_stores data1 domain_name = Some (add_certs c first store)"
    using a(2) by simp
  from Cons.IH[OF rest st1]
  have b: "ca_certs data' = ca_certs data1 @ others"
    "trust_bundle_stores data' =
       (trust_bundle_stores data1)(domain_name \<mapsto> add_certs c others (add_certs c first store))"
    "spiffe_refresh_hint data' = spiffe_refresh_hint data1"
    "spiffe_sequence data' = spiffe_sequence data1"
    unfolding others_def by blast+
  show ?case
    unfolding split using a b by (simp add: add_certs_simps(3))
qed

lemma load_keys_Some:
  assumes "load_keys c domain_name data keys = Some data'"
    and "trust_bundle_stores data domain_name = Some store"
  shows "ca_certs data' = ca_certs data @ concat (map (spec_key_certs c) keys)
         \<and> trust_bundle_stores data' =
             (trust_bundle_stores data)
               (domain_name \<mapsto> add_certs c (concat (map (spec_key_certs c) keys)) store)
         \<and> spiffe_refresh_hint data' = spiffe_refresh_hint data
         \<and> spiffe_sequence data' = spiffe_sequence data"
  using assms
proof (induction keys arbitrary: data store)
  case Nil
  then show ?case
    by (simp add: add_certs_simps map_upd_triv)
next
  case (Cons key keys)
  show ?case
  proof (cases "key_use key = ''x509-svid''")
    case True
    with Cons.prems(1) obtain data1 where
      one: "load_certs c domain_name data (key_x5c key) = Some data1"
      and rest: "load_keys c domain_name data1 keys = Some data'"
      by (auto split: option.splits)
    define first where "first = spec_key_certs c key"
    define others where "others = concat (map (spec_key_certs c) keys)"
    have k: "List.map_filter (spec_accepted_cert c) (key_x5c key) = first"
      using True by (simp add: spec_key_certs_def first_def)
    have split: "concat (map (spec_key_certs c) (key # keys)) = first @ others"
      by (simp add: first_def others_def)
    from load_certs_Some[OF one Cons.prems(2)]
    have a: "ca_certs data1 = ca_certs data @ first"
      "trust_bundle_stores data1 = (trust_bundle_stores data)(domain_name \<mapsto> add_certs c first store)"
      "spiffe_refresh_hint data1 = spiffe_refresh_hint data"
      "spiffe_sequence data1 = spiffe_sequence data"
      unfolding k by blast+
    have st1: "trust_bundle_stores data1 domain_name = Some (add_certs c first store)"
      using a(2) by simp
    from Cons.IH[OF rest st1]
    have b: "ca_certs data' = ca_certs data1 @ others"
      "trust_bundle_stores data' =
         (trust_bundle_stores data1)(domain_name \<mapsto> add_certs c others (add_certs c first store))"
      "spiffe_refresh_hint data' = spiffe_refresh_hint data1"
      "spiffe_sequence data' = spiffe_sequence data1"
      unfolding others_def by blast+
    show ?thesis
      unfolding split using a b by (simp add: add_certs_simps(3))
  next
    case False
    with Cons.prems(1) have rest: "load_keys c domain_name data keys = Some data'"
      by simp
    have k: "spec_key_certs c key = []"
      using False by (simp add: spec_key_certs_def)
    from Cons.IH[OF rest Cons.prems(2)] k show ?thesis
      by simp
  qed
qed

lemma load_domain_Some:
  assumes "load_domain c data domain_name domain_object = Some data'"
  shows "ca_certs data' = ca_certs data @ spec_domain_certs c domain_object
         \<and> trust_bundle_stores data' =
             (trust_bundle_stores data)
               (domain_name \<mapsto>
                  add_certs c (spec_domain_certs c domain_object)
                    (case trust_bundle_stores data domain_name of
                       None \<Rightarrow> X509_STORE_new c
                     | Some store \<Rightarrow> store))
         \<and> spiffe_refresh_hint data' = spiffe_refresh_hint data
         \<and> spiffe_sequence data' = spiffe_sequence data"
proof (cases "trust_bundle_stores data domain_name")
  case None
  let ?data1 = "data\<lparr>trust_bundle_stores :=
                       (trust_bundle_stores data)(domain_name \<mapsto> X509_STORE_new c)\<rparr>"
  from assms None have k: "load_keys c domain_name ?data1 (domain_keys domain_object) = Some data'"
    by (simp add: load_domain_def Let_def split: if_splits)
  have st: "trust_bundle_stores ?data1 domain_name = Some (X509_STORE_new c)"
    by simp
  from load_keys_Some[OF k st] None show ?thesis
    by (simp add: spec_domain_certs_def)
next
  case (Some store)
  with assms have k: "load_keys c domain_name data (domain_keys domain_object) = Some data'"
    by (simp add: load_domain_def Let_def split: if_splits)
  from load_keys_Some[OF k Some] Some show ?thesis
    by (simp add: spec_domain_certs_def)
qed

lemma spec_certs_of_domain_Cons:
  "spec_certs_of_domain c ((n, obj) # rest) k =
     (if n = k then spec_domain_certs c obj else []) @ spec_certs_of_domain c rest k"
  by (simp add: spec_certs_of_domain_def)

lemma spec_certs_of_domain_absent:
  "k \<notin> fst ` set domains \<Longrightarrow> spec_certs_of_domain c domains k = []"
  by (induction domains) (auto simp: spec_certs_of_domain_def)

lemma spec_ca_certs_Cons:
  "spec_ca_certs c ((n, obj) # rest) = spec_domain_certs c obj @ spec_ca_certs c rest"
  by (simp add: spec_ca_certs_def)

lemma iterate_domains_Some:
  assumes "iterate_domains c data domains = Some data'"
  shows "ca_certs data' = ca_certs data @ spec_ca_certs c domains
         \<and> (\<forall>k. trust_bundle_stores data' k =
                  (if k \<in> fst ` set domains then
                     Some (add_certs c (spec_certs_of_domain c domains k)
                             (case trust_bundle_stores data k of
                                None \<Rightarrow> X509_STORE_new c
                              | Some store \<Rightarrow> store))
                   else trust_bundle_stores data k))
         \<and> spiffe_refresh_hint data' = spiffe_refresh_hint data
         \<and> spiffe_sequence data' = spiffe_sequence data"
  using assms
proof (induction domains arbitrary: data)
  case Nil
  then show ?case by (simp add: spec_ca_certs_def)
next
  case (Cons d rest)
  obtain n obj where d: "d = (n, obj)" by (cases d)
  from Cons.prems d obtain data1 where
    one: "load_domain c data n obj = Some data1"
    and more: "iterate_domains c data1 rest = Some data'"
    by (auto split: option.splits)
  define dc where "dc = spec_domain_certs c obj"
  define base where "base = (\<lambda>k. case trust_bundle_stores data k of
                                  None \<Rightarrow> X509_STORE_new c | Some store \<Rightarrow> store)"
  from load_domain_Some[OF one]
  have a: "ca_certs data1 = ca_certs data @ dc"
    "trust_bundle_stores data1 = (trust_bundle_stores data)(n \<mapsto> add_certs c dc (base n))"
    "spiffe_refresh_hint data1 = spiffe_refresh_hint data"
    "spiffe_sequence data1 = spiffe_sequence data"
    unfolding dc_def base_def by blast+
  from Cons.IH[OF more]
  have b: "ca_certs data' = ca_certs data1 @ spec_ca_certs c rest"
    "\<And>k. trust_bundle_stores data' k =
            (if k \<in> fst ` set rest then
               Some (add_certs c (spec_certs_of_domain c rest k)
                       (case trust_bundle_stores data1 k of
                          None \<Rightarrow> X509_STORE_new c
                        | Some store \<Rightarrow> store))
             else trust_bundle_stores data1 k)"
    "spiffe_refresh_hint data' = spiffe_refresh_hint data1"
    "spiffe_sequence data' = spiffe_sequence data1"
    by blast+
  have stores: "trust_bundle_stores data' k =
                  (if k \<in> fst ` set (d # rest) then
                     Some (add_certs c (spec_certs_of_domain c (d # rest) k) (base k))
                   else trust_bundle_stores data k)" for k
  proof (cases "k = n")
    case True
    show ?thesis
    proof (cases "n \<in> fst ` set rest")
      case inrest: True
      then show ?thesis
        using True b(2)[of n] a(2)
        by (simp add: d spec_certs_of_domain_Cons add_certs_simps(3) dc_def)
    next
      case False
      then show ?thesis
        using True b(2)[of n] a(2) spec_certs_of_domain_absent[OF False, of c]
        by (simp add: d spec_certs_of_domain_Cons dc_def)
    qed
  next
    case False
    then show ?thesis
      using b(2)[of k] a(2)
      by (auto simp: d spec_certs_of_domain_Cons base_def)
  qed
  show ?case
    using a b(1,3,4) stores
    by (simp add: d spec_ca_certs_Cons dc_def base_def)
qed

lemma loadTrustBundleMap_Some:
  assumes "fs file_name = JsonParsed doc"
    and "json_trust_domains doc = Some domains"
    and "loadTrustBundleMap c fs file_name = Some loaded"
  shows "loaded =
           \<lparr>trust_bundle_stores =
              (\<lambda>k. if k \<in> fst ` set domains then Some (spec_store c domains k) else None),
            ca_certs = spec_ca_certs c domains,
            spiffe_refresh_hint = 0, spiffe_sequence = 0\<rparr>"
proof -
  from assms have it: "iterate_domains c new_SpiffeData domains = Some loaded"
    by (simp add: loadTrustBundleMap_def split: if_splits)
  from iterate_domains_Some[OF it]
  have "ca_certs loaded = spec_ca_certs c domains"
    and "\<And>k. trust_bundle_stores loaded k =
            (if k \<in> fst ` set domains then Some (spec_store c domains k) else None)"
    and "spiffe_refresh_hint loaded = 0" and "spiffe_sequence loaded = 0"
    by (simp_all add: new_SpiffeData_def spec_store_def)
  then have "trust_bundle_stores loaded =
               (\<lambda>k. if k \<in> fst ` set domains then Some (spec_store c domains k) else None)"
    and "ca_certs loaded = spec_ca_certs c domains"
    and "spiffe_refresh_hint loaded = 0" and "spiffe_sequence loaded = 0"
    by auto
  then show ?thesis
    by (cases loaded) simp
qed

lemma run_posted_update_on_file_modified:
  assumes "main_thread_dispatcher v = []"
  shows "run_posted_update (on_file_modified c fs v) =
           (case loadTrustBundleMap c fs (trust_bundle_file_name v) of
              None \<Rightarrow> v
            | Some loaded \<Rightarrow> v\<lparr>tls := (\<lambda>thread. loaded)\<rparr>)"
proof (cases "loadTrustBundleMap c fs (trust_bundle_file_name v)")
  case None
  then show ?thesis
    using assms by (simp add: on_file_modified_cases run_posted_update_def)
next
  case (Some loaded)
  have "v\<lparr>main_thread_dispatcher := [loaded]\<rparr>\<lparr>tls := (\<lambda>thread. loaded), main_thread_dispatcher := []\<rparr>
          = v\<lparr>tls := (\<lambda>thread. loaded)\<rparr>"
    using assms by (cases v) simp
  then show ?thesis
    using Some assms by (simp add: on_file_modified_cases run_posted_update_def)
qed

lemma loadTrustBundleMap_same_file:
  "fs' file_name = fs file_name \<Longrightarrow>
     loadTrustBundleMap c fs' file_name = loadTrustBundleMap c fs file_name"
  by (simp add: loadTrustBundleMap_def)

text \<open>
  C7. The snapshot \<open>loadTrustBundleMap\<close> gives is the one the document determines, in
  the words of the specification: its keys are the domain keys of the document, the
  store of each is \<open>spec_store\<close>, its CA list is \<open>spec_ca_certs\<close>, in document order.
  So a second load of a file that holds the same document gives the same snapshot, and
  a second reload (callback, then the posted update run) leaves the validator of the
  first, with the same result for every verification.
\<close>

theorem reload_unchanged_file:
  "(fs file_name = JsonParsed doc \<and> json_trust_domains doc = Some domains
      \<and> loadTrustBundleMap c fs file_name = Some loaded \<longrightarrow>
        dom (trust_bundle_stores loaded) = fst ` set domains
        \<and> (\<forall>k \<in> fst ` set domains. trust_bundle_stores loaded k = Some (spec_store c domains k))
        \<and> ca_certs loaded = spec_ca_certs c domains
        \<and> spiffe_refresh_hint loaded = 0 \<and> spiffe_sequence loaded = 0)
   \<and> (fs' file_name = fs file_name \<longrightarrow>
        loadTrustBundleMap c fs' file_name = loadTrustBundleMap c fs file_name)
   \<and> (fs' (trust_bundle_file_name v) = fs (trust_bundle_file_name v)
        \<and> main_thread_dispatcher v = [] \<longrightarrow>
        run_posted_update
          (on_file_modified c fs' (run_posted_update (on_file_modified c fs v)))
          = run_posted_update (on_file_modified c fs v)
        \<and> doVerifyCertChain c
            (run_posted_update
               (on_file_modified c fs' (run_posted_update (on_file_modified c fs v))))
            thread chain param
          = doVerifyCertChain c (run_posted_update (on_file_modified c fs v)) thread chain param)
   \<and> (loadTrustBundleMap c fs (trust_bundle_file_name v) = Some installed
        \<and> main_thread_dispatcher v = [] \<longrightarrow>
        tls (on_file_modified c fs v) = tls v
        \<and> tls (run_posted_update (on_file_modified c fs v)) thread = installed)"
proof (intro conjI impI)
  assume h: "fs file_name = JsonParsed doc \<and> json_trust_domains doc = Some domains
      \<and> loadTrustBundleMap c fs file_name = Some loaded"
  then have h1: "fs file_name = JsonParsed doc" and h2: "json_trust_domains doc = Some domains"
    and h3: "loadTrustBundleMap c fs file_name = Some loaded"
    by simp_all
  have l: "loaded =
           \<lparr>trust_bundle_stores =
              (\<lambda>k. if k \<in> fst ` set domains then Some (spec_store c domains k) else None),
            ca_certs = spec_ca_certs c domains,
            spiffe_refresh_hint = 0, spiffe_sequence = 0\<rparr>"
    by (rule loadTrustBundleMap_Some[OF h1 h2 h3])
  have s: "trust_bundle_stores loaded =
             (\<lambda>k. if k \<in> fst ` set domains then Some (spec_store c domains k) else None)"
    by (subst l) simp
  show "dom (trust_bundle_stores loaded) = fst ` set domains"
    unfolding s dom_def by (simp split: if_splits)
  show "\<forall>k \<in> fst ` set domains. trust_bundle_stores loaded k = Some (spec_store c domains k)"
    unfolding s by simp
  show "ca_certs loaded = spec_ca_certs c domains"
    by (subst l) simp
  show "spiffe_refresh_hint loaded = 0"
    by (subst l) simp
  show "spiffe_sequence loaded = 0"
    by (subst l) simp
next
  assume "fs' file_name = fs file_name"
  then show "loadTrustBundleMap c fs' file_name = loadTrustBundleMap c fs file_name"
    by (rule loadTrustBundleMap_same_file)
next
  assume h: "fs' (trust_bundle_file_name v) = fs (trust_bundle_file_name v)
        \<and> main_thread_dispatcher v = []"
  let ?once = "run_posted_update (on_file_modified c fs v)"
  have same: "loadTrustBundleMap c fs' (trust_bundle_file_name v)
                = loadTrustBundleMap c fs (trust_bundle_file_name v)"
    by (rule loadTrustBundleMap_same_file) (use h in simp)
  have once: "?once = (case loadTrustBundleMap c fs (trust_bundle_file_name v) of
              None \<Rightarrow> v
            | Some loaded \<Rightarrow> v\<lparr>tls := (\<lambda>thread. loaded)\<rparr>)"
    using h by (simp add: run_posted_update_on_file_modified)
  have q: "main_thread_dispatcher ?once = []"
    and n: "trust_bundle_file_name ?once = trust_bundle_file_name v"
    using h by (simp_all add: once split: option.splits)
  have "run_posted_update (on_file_modified c fs' ?once) =
          (case loadTrustBundleMap c fs' (trust_bundle_file_name ?once) of
              None \<Rightarrow> ?once
            | Some loaded \<Rightarrow> ?once\<lparr>tls := (\<lambda>thread. loaded)\<rparr>)"
    using q by (rule run_posted_update_on_file_modified)
  also have "\<dots> = ?once"
    unfolding n same by (simp add: once split: option.splits)
  finally show twice: "run_posted_update (on_file_modified c fs' ?once) = ?once" .
  show "doVerifyCertChain c (run_posted_update (on_file_modified c fs' ?once)) thread chain param
          = doVerifyCertChain c ?once thread chain param"
    unfolding twice by (rule refl)
next
  assume "loadTrustBundleMap c fs (trust_bundle_file_name v) = Some installed
        \<and> main_thread_dispatcher v = []"
  show "tls (on_file_modified c fs v) = tls v"
    by (rule on_file_modified_tls)
next
  assume "loadTrustBundleMap c fs (trust_bundle_file_name v) = Some installed
        \<and> main_thread_dispatcher v = []"
  then show "tls (run_posted_update (on_file_modified c fs v)) thread = installed"
    by (simp add: run_posted_update_on_file_modified)
qed

theorem reload_unchanged_file_witness:
  "loadTrustBundleMap example_collaborators
     (\<lambda>file_name. JsonParsed
        \<lparr>json_trust_domains = Some
           [(''a.org'', \<lparr>domain_keys = [\<lparr>key_use = ''x509-svid'', key_x5c = [''A2'']\<rparr>]\<rparr>)]\<rparr>)
     (trust_bundle_file_name (example_validator []))
   = Some \<lparr>trust_bundle_stores =
             [''a.org'' \<mapsto>
                [example_cert ''ca2.a.org'' 0x10 0x06 (Some [uri_name ''spiffe://a.org''])]],
           ca_certs = [example_cert ''ca2.a.org'' 0x10 0x06 (Some [uri_name ''spiffe://a.org''])],
           spiffe_refresh_hint = 0, spiffe_sequence = 0\<rparr>
   \<and> spec_ca_certs example_collaborators
        [(''a.org'', \<lparr>domain_keys = [\<lparr>key_use = ''x509-svid'', key_x5c = [''A2'']\<rparr>]\<rparr>)]
      = [example_cert ''ca2.a.org'' 0x10 0x06 (Some [uri_name ''spiffe://a.org''])]
   \<and> spec_store example_collaborators
        [(''a.org'', \<lparr>domain_keys = [\<lparr>key_use = ''x509-svid'', key_x5c = [''A2'']\<rparr>]\<rparr>)] ''a.org''
      = [example_cert ''ca2.a.org'' 0x10 0x06 (Some [uri_name ''spiffe://a.org''])]
   \<and> main_thread_dispatcher (example_validator []) = []
   \<and> tls (on_file_modified example_collaborators
            (\<lambda>file_name. JsonParsed
               \<lparr>json_trust_domains = Some
                  [(''a.org'', \<lparr>domain_keys = [\<lparr>key_use = ''x509-svid'', key_x5c = [''A2'']\<rparr>]\<rparr>)]\<rparr>)
            (example_validator []))
      = tls (example_validator [])
   \<and> tls (run_posted_update
            (on_file_modified example_collaborators
               (\<lambda>file_name. JsonParsed
                  \<lparr>json_trust_domains = Some
                     [(''a.org'', \<lparr>domain_keys = [\<lparr>key_use = ''x509-svid'', key_x5c = [''A2'']\<rparr>]\<rparr>)]\<rparr>)
               (example_validator []))) 0
      = \<lparr>trust_bundle_stores =
             [''a.org'' \<mapsto>
                [example_cert ''ca2.a.org'' 0x10 0x06 (Some [uri_name ''spiffe://a.org''])]],
           ca_certs = [example_cert ''ca2.a.org'' 0x10 0x06 (Some [uri_name ''spiffe://a.org''])],
           spiffe_refresh_hint = 0, spiffe_sequence = 0\<rparr>
   \<and> run_posted_update
        (on_file_modified example_collaborators
           (\<lambda>file_name. JsonParsed
              \<lparr>json_trust_domains = Some
                 [(''a.org'', \<lparr>domain_keys = [\<lparr>key_use = ''x509-svid'', key_x5c = [''A2'']\<rparr>]\<rparr>)]\<rparr>)
           (run_posted_update
              (on_file_modified example_collaborators
                 (\<lambda>file_name. JsonParsed
                    \<lparr>json_trust_domains = Some
                       [(''a.org'', \<lparr>domain_keys = [\<lparr>key_use = ''x509-svid'', key_x5c = [''A2'']\<rparr>]\<rparr>)]\<rparr>)
                 (example_validator []))))
      = run_posted_update
          (on_file_modified example_collaborators
             (\<lambda>file_name. JsonParsed
                \<lparr>json_trust_domains = Some
                   [(''a.org'', \<lparr>domain_keys = [\<lparr>key_use = ''x509-svid'', key_x5c = [''A2'']\<rparr>]\<rparr>)]\<rparr>)
             (example_validator []))"
proof -
  let ?domains = "[(''a.org'', \<lparr>domain_keys = [\<lparr>key_use = ''x509-svid'', key_x5c = [''A2'']\<rparr>]\<rparr>)]"
  let ?doc = "\<lparr>json_trust_domains = Some ?domains\<rparr>"
  let ?fs = "\<lambda>file_name :: string. JsonParsed ?doc"
  let ?a2 = "example_cert ''ca2.a.org'' 0x10 0x06 (Some [uri_name ''spiffe://a.org''])"
  let ?snap = "\<lparr>trust_bundle_stores = [''a.org'' \<mapsto> [?a2]], ca_certs = [?a2],
                spiffe_refresh_hint = 0, spiffe_sequence = 0\<rparr>"
  let ?v = "example_validator []"
  have l: "loadTrustBundleMap example_collaborators ?fs (trust_bundle_file_name ?v) = Some ?snap"
    by (rule example_load_a2)
  have q: "main_thread_dispatcher ?v = []"
    by (simp add: example_validator_def)
  note inst = reload_unchanged_file
    [where c = example_collaborators and fs = ?fs and fs' = ?fs and v = ?v
       and file_name = "trust_bundle_file_name ?v" and doc = ?doc and domains = ?domains
       and loaded = ?snap and installed = ?snap and thread = 0 and chain = "[]" and param = "()"]
  have h1: "?fs (trust_bundle_file_name ?v) = JsonParsed ?doc \<and> json_trust_domains ?doc = Some ?domains
      \<and> loadTrustBundleMap example_collaborators ?fs (trust_bundle_file_name ?v) = Some ?snap"
    using l by simp
  note p1 = inst[THEN conjunct1, THEN mp, OF h1]
  from p1[THEN conjunct2, THEN conjunct2, THEN conjunct1]
  have "[?a2] = spec_ca_certs example_collaborators ?domains"
    by simp
  then have ca: "spec_ca_certs example_collaborators ?domains = [?a2]"
    by (rule sym)
  have "''a.org'' \<in> fst ` set ?domains"
    by simp
  from p1[THEN conjunct2, THEN conjunct1, THEN bspec, OF this]
  have "[?a2] = spec_store example_collaborators ?domains ''a.org''"
    by simp
  then have st: "spec_store example_collaborators ?domains ''a.org'' = [?a2]"
    by (rule sym)
  have h3: "?fs (trust_bundle_file_name ?v) = ?fs (trust_bundle_file_name ?v)
        \<and> main_thread_dispatcher ?v = []"
    using q by simp
  note p3 = inst[THEN conjunct2, THEN conjunct2, THEN conjunct1, THEN mp, OF h3, THEN conjunct1]
  have h4: "loadTrustBundleMap example_collaborators ?fs (trust_bundle_file_name ?v) = Some ?snap
        \<and> main_thread_dispatcher ?v = []"
    using l q by simp
  note p4 = inst[THEN conjunct2, THEN conjunct2, THEN conjunct2, THEN mp, OF h4]
  show ?thesis
    using l ca st q p3 p4 by blast
qed

section \<open>Construction from a static trust-domain list\<close>

text \<open>One step of the loop over the configured trust domains.\<close>

lemma load_trust_domains_step:
  "(\<exists>e. load_trust_domains c data ca_file (domain # rest) = Inl e)
   \<or> (\<exists>store cas ca_file'.
         trust_bundle_stores data (td_name domain) = None
         \<and> load_trust_domains c data ca_file (domain # rest) =
             load_trust_domains c
               (data\<lparr>trust_bundle_stores := (trust_bundle_stores data)(td_name domain \<mapsto> store),
                      ca_certs := cas\<rparr>)
               ca_file' rest)"
proof (cases "trust_bundle_stores data (td_name domain) \<noteq> None")
  case True
  then show ?thesis by simp
next
  case nodup: False
  show ?thesis
  proof (cases "DataSource_read c (td_trust_bundle domain)")
    case (Inl msg)
    with nodup show ?thesis by simp
  next
    case (Inr cert)
    show ?thesis
    proof (cases "PEM_X509_INFO_read_bio c cert")
      case None
      with nodup Inr show ?thesis by simp
    next
      case (Some list)
      show ?thesis
      proof (cases "list = []")
        case True
        with nodup Inr Some show ?thesis by simp
      next
        case False
        obtain store cas has_crl ca_loaded ca_file' where
          items: "load_items c domain list (X509_STORE_new c, ca_certs data, False, False, ca_file)
                    = (store, cas, has_crl, ca_loaded, ca_file')"
          by (metis prod_cases5)
        have "load_trust_domains c data ca_file (domain # rest) =
                load_trust_domains c
                  (data\<lparr>trust_bundle_stores :=
                           (trust_bundle_stores data)
                             (td_name domain \<mapsto>
                               (if has_crl then
                                  X509_STORE_set_flags c store
                                    (X509_V_FLAG_CRL_CHECK OR X509_V_FLAG_CRL_CHECK_ALL)
                                else store)),
                         ca_certs := cas\<rparr>)
                  ca_file' rest"
          using nodup Inr Some False items by simp
        with nodup show ?thesis by (intro disjI2 exI conjI) simp_all
      qed
    qed
  qed
qed

lemma load_trust_domains_loaded_step:
  assumes "trust_bundle_stores data (td_name domain) = None"
    and "DataSource_read c (td_trust_bundle domain) = Inr bytes"
    and "PEM_X509_INFO_read_bio c bytes = Some items"
    and "items \<noteq> []"
  shows "\<exists>store cas ca_file'.
           load_trust_domains c data ca_file (domain # rest) =
             load_trust_domains c
               (data\<lparr>trust_bundle_stores := (trust_bundle_stores data)(td_name domain \<mapsto> store),
                      ca_certs := cas\<rparr>)
               ca_file' rest"
proof -
  obtain store cas has_crl ca_loaded ca_file' where
    items: "load_items c domain items (X509_STORE_new c, ca_certs data, False, False, ca_file)
              = (store, cas, has_crl, ca_loaded, ca_file')"
    by (metis prod_cases5)
  have "load_trust_domains c data ca_file (domain # rest) =
          load_trust_domains c
            (data\<lparr>trust_bundle_stores :=
                     (trust_bundle_stores data)
                       (td_name domain \<mapsto>
                         (if has_crl then
                            X509_STORE_set_flags c store
                              (X509_V_FLAG_CRL_CHECK OR X509_V_FLAG_CRL_CHECK_ALL)
                          else store)),
                   ca_certs := cas\<rparr>)
            ca_file' rest"
    using assms items by simp
  then show ?thesis by blast
qed

lemma load_trust_domains_duplicate:
  assumes "\<not> distinct (map td_name domains)
           \<or> (\<exists>d \<in> set domains. trust_bundle_stores data (td_name d) \<noteq> None)"
  shows "\<exists>e. load_trust_domains c data ca_file domains = Inl e"
  using assms
proof (induction domains arbitrary: data ca_file)
  case Nil
  then show ?case by simp
next
  case (Cons domain rest)
  from load_trust_domains_step[of c data ca_file domain rest]
  show ?case
  proof (elim disjE exE conjE)
    fix e
    assume "load_trust_domains c data ca_file (domain # rest) = Inl e"
    then show ?thesis by blast
  next
    fix store cas ca_file'
    let ?data' = "data\<lparr>trust_bundle_stores := (trust_bundle_stores data)(td_name domain \<mapsto> store),
                        ca_certs := cas\<rparr>"
    assume fresh: "trust_bundle_stores data (td_name domain) = None"
      and step: "load_trust_domains c data ca_file (domain # rest) =
                   load_trust_domains c ?data' ca_file' rest"
    have "\<not> distinct (map td_name rest)
          \<or> (\<exists>d \<in> set rest. trust_bundle_stores ?data' (td_name d) \<noteq> None)"
      using Cons.prems fresh by auto
    from Cons.IH[OF this] step show ?thesis by simp
  qed
qed

lemma bundle_loads_iff:
  "bundle_loads c domain \<longleftrightarrow>
     (\<exists>bytes items. DataSource_read c (td_trust_bundle domain) = Inr bytes
        \<and> PEM_X509_INFO_read_bio c bytes = Some items \<and> items \<noteq> [])"
  by (auto simp: bundle_loads_def split: sum.splits option.splits)

lemma load_trust_domains_prefix:
  assumes "distinct (map td_name pre)"
    and "\<forall>d \<in> set pre. trust_bundle_stores data (td_name d) = None"
    and "list_all (bundle_loads c) pre"
  shows "\<exists>data' ca_file'.
           load_trust_domains c data ca_file (pre @ rest) =
             load_trust_domains c data' ca_file' rest
           \<and> (\<forall>k. (trust_bundle_stores data' k \<noteq> None)
                   = (trust_bundle_stores data k \<noteq> None \<or> k \<in> set (map td_name pre)))"
  using assms
proof (induction pre arbitrary: data ca_file)
  case Nil
  then show ?case by auto
next
  case (Cons domain pre)
  from Cons.prems(3) obtain bytes items where
    ok: "DataSource_read c (td_trust_bundle domain) = Inr bytes"
        "PEM_X509_INFO_read_bio c bytes = Some items" "items \<noteq> []"
    by (auto simp: bundle_loads_iff)
  from Cons.prems(2) have fresh: "trust_bundle_stores data (td_name domain) = None"
    by simp
  from load_trust_domains_loaded_step[OF fresh ok, of ca_file "pre @ rest"]
  obtain store cas ca_file1 where
    step: "load_trust_domains c data ca_file (domain # pre @ rest) =
             load_trust_domains c
               (data\<lparr>trust_bundle_stores := (trust_bundle_stores data)(td_name domain \<mapsto> store),
                      ca_certs := cas\<rparr>)
               ca_file1 (pre @ rest)"
    by blast
  let ?data1 = "data\<lparr>trust_bundle_stores := (trust_bundle_stores data)(td_name domain \<mapsto> store),
                      ca_certs := cas\<rparr>"
  have d: "distinct (map td_name pre)"
    using Cons.prems(1) by simp
  have "td_name domain \<notin> td_name ` set pre"
    using Cons.prems(1) by simp
  then have "\<forall>d \<in> set pre. td_name d \<noteq> td_name domain"
    by (metis imageI)
  then have f: "\<forall>d \<in> set pre. trust_bundle_stores ?data1 (td_name d) = None"
    using Cons.prems(2) by simp
  have l: "list_all (bundle_loads c) pre"
    using Cons.prems(3) by simp
  from Cons.IH[OF d f l, of ca_file1]
  obtain data' ca_file' where
    rec: "load_trust_domains c ?data1 ca_file1 (pre @ rest) =
            load_trust_domains c data' ca_file' rest"
    and keys: "\<forall>k. (trust_bundle_stores data' k \<noteq> None)
                   = (trust_bundle_stores ?data1 k \<noteq> None \<or> k \<in> set (map td_name pre))"
    by blast
  have "\<forall>k. (trust_bundle_stores data' k \<noteq> None)
              = (trust_bundle_stores data k \<noteq> None \<or> k \<in> set (map td_name (domain # pre)))"
  proof
    fix k
    have "(trust_bundle_stores ?data1 k \<noteq> None) = (trust_bundle_stores data k \<noteq> None \<or> k = td_name domain)"
      by auto
    with keys show "(trust_bundle_stores data' k \<noteq> None)
              = (trust_bundle_stores data k \<noteq> None \<or> k \<in> set (map td_name (domain # pre)))"
      by auto
  qed
  with step rec show ?case
    by (intro exI[of _ data'] exI[of _ ca_file']) simp
qed

lemma load_trust_domains_first_failure:
  assumes "distinct (map td_name pre)"
    and "list_all (bundle_loads c) pre"
    and "td_name d \<in> set (map td_name pre) \<or> \<not> bundle_loads c d"
  shows "load_trust_domains c new_SpiffeData ca_file (pre @ d # post) =
           Inl (entry_exception c pre d)"
proof -
  have "\<forall>x \<in> set pre. trust_bundle_stores (new_SpiffeData :: 'a SpiffeData) (td_name x) = None"
    by (simp add: new_SpiffeData_def)
  from load_trust_domains_prefix[OF assms(1) this assms(2), of ca_file "d # post"]
  obtain data' ca_file' where
    rec: "load_trust_domains c new_SpiffeData ca_file (pre @ d # post) =
            load_trust_domains c data' ca_file' (d # post)"
    and keys: "\<forall>k. (trust_bundle_stores data' k \<noteq> None)
                    = (trust_bundle_stores (new_SpiffeData :: 'a SpiffeData) k \<noteq> None
                       \<or> k \<in> set (map td_name pre))"
    by blast
  from keys have k: "(trust_bundle_stores data' (td_name d) \<noteq> None)
                       = (td_name d \<in> set (map td_name pre))"
    by (simp add: new_SpiffeData_def)
  show ?thesis
  proof (cases "td_name d \<in> set (map td_name pre)")
    case True
    with k have "trust_bundle_stores data' (td_name d) \<noteq> None" by simp
    then have "load_trust_domains c data' ca_file' (d # post) =
                 Inl (EnvoyException
                   (''Multiple trust bundles are given for one trust domain for '' @ td_name d))"
      by simp
    with rec True show ?thesis
      by (simp add: entry_exception_def)
  next
    case False
    with k have fresh: "trust_bundle_stores data' (td_name d) = None" by simp
    from False assms(3) have nl: "\<not> bundle_loads c d" by simp
    have "load_trust_domains c data' ca_file' (d # post) = Inl (entry_exception c pre d)"
    proof (cases "DataSource_read c (td_trust_bundle d)")
      case (Inl msg)
      with fresh False show ?thesis
        by (simp add: entry_exception_def)
    next
      case (Inr bytes)
      with nl have "PEM_X509_INFO_read_bio c bytes = None \<or> PEM_X509_INFO_read_bio c bytes = Some []"
        by (auto simp: bundle_loads_def split: option.splits)
      with fresh False Inr show ?thesis
        by (auto simp: entry_exception_def)
    qed
    with rec show ?thesis by simp
  qed
qed

lemma first_failure_exists:
  assumes "\<not> distinct (map td_name domains)"
  shows "\<exists>pre d post. domains = pre @ d # post \<and> distinct (map td_name pre)
           \<and> list_all (bundle_loads c) pre
           \<and> (td_name d \<in> set (map td_name pre) \<or> \<not> bundle_loads c d)"
  using assms
proof (induction domains rule: rev_induct)
  case Nil
  then show ?case by simp
next
  case (snoc x xs)
  show ?case
  proof (cases "distinct (map td_name xs)")
    case False
    from snoc.IH[OF False] obtain pre d post where
      "xs = pre @ d # post" "distinct (map td_name pre)" "list_all (bundle_loads c) pre"
      "td_name d \<in> set (map td_name pre) \<or> \<not> bundle_loads c d"
      by blast
    then have "xs @ [x] = pre @ d # (post @ [x])" by simp
    with \<open>distinct (map td_name pre)\<close> \<open>list_all (bundle_loads c) pre\<close>
      \<open>td_name d \<in> set (map td_name pre) \<or> \<not> bundle_loads c d\<close>
    show ?thesis by blast
  next
    case True
    with snoc.prems have dup: "td_name x \<in> set (map td_name xs)" by simp
    show ?thesis
    proof (cases "list_all (bundle_loads c) xs")
      case all: True
      have "xs @ [x] = xs @ x # []" by simp
      with True all dup show ?thesis by blast
    next
      case False
      then have "\<exists>y \<in> set xs. \<not> bundle_loads c y"
        by (simp add: list_all_iff)
      from split_list_first_prop[OF this] obtain ys y zs where
        s: "xs = ys @ y # zs" and ny: "\<not> bundle_loads c y"
        and ys: "\<forall>z \<in> set ys. \<not> \<not> bundle_loads c z"
        by blast
      have 1: "xs @ [x] = ys @ y # (zs @ [x])" using s by simp
      have 2: "distinct (map td_name ys)" using True s by simp
      have 3: "list_all (bundle_loads c) ys" using ys by (simp add: list_all_iff)
      from 1 2 3 ny show ?thesis by blast
    qed
  qed
qed

text \<open>
  C8, amended. When two entries of the configured list have the same domain name, the
  constructor ends in an exception and no validator is built. With a bundle map
  configured as well it is the exception for that. Otherwise it is the exception of the
  first entry, in list order, that has the name of an earlier entry or whose bundle does
  not load: \<open>Multiple trust bundles are given for one trust domain for\<close> and the name
  for a repeated name, the reader's error for a source that cannot be read,
  \<open>Failed to load trusted CA certificate for\<close> and the name for a bundle that does not
  parse or is empty. Such a first entry exists whenever a name is repeated.
\<close>

theorem duplicate_trust_domain_aborts:
  "(trust_bundle_map (customValidatorConfig config) \<noteq> None
      \<and> trust_domains (customValidatorConfig config) \<noteq> [] \<longrightarrow>
        SPIFFEValidator_ctor c fs config counters =
          Inl (EnvoyException ''Cannot configure both trust_domains and trust_bundle_map...''))
   \<and> (trust_bundle_map (customValidatorConfig config) = None
        \<and> trust_domains (customValidatorConfig config) = pre @ d # post
        \<and> distinct (map td_name pre)
        \<and> list_all (bundle_loads c) pre
        \<and> (td_name d \<in> set (map td_name pre) \<or> \<not> bundle_loads c d) \<longrightarrow>
        SPIFFEValidator_ctor c fs config counters = Inl (entry_exception c pre d))
   \<and> (\<not> distinct (map td_name (trust_domains (customValidatorConfig config))) \<longrightarrow>
        (\<exists>e. SPIFFEValidator_ctor c fs config counters = Inl e)
        \<and> (\<exists>first_pre first_d first_post.
              trust_domains (customValidatorConfig config) = first_pre @ first_d # first_post
              \<and> distinct (map td_name first_pre)
              \<and> list_all (bundle_loads c) first_pre
              \<and> (td_name first_d \<in> set (map td_name first_pre) \<or> \<not> bundle_loads c first_d)))"
proof (intro conjI impI)
  assume "trust_bundle_map (customValidatorConfig config) \<noteq> None
      \<and> trust_domains (customValidatorConfig config) \<noteq> []"
  then show "SPIFFEValidator_ctor c fs config counters =
          Inl (EnvoyException ''Cannot configure both trust_domains and trust_bundle_map...'')"
    by (auto simp: SPIFFEValidator_ctor_def Let_def)
next
  assume h: "trust_bundle_map (customValidatorConfig config) = None
        \<and> trust_domains (customValidatorConfig config) = pre @ d # post
        \<and> distinct (map td_name pre)
        \<and> list_all (bundle_loads c) pre
        \<and> (td_name d \<in> set (map td_name pre) \<or> \<not> bundle_loads c d)"
  then have "load_trust_domains c new_SpiffeData '''' (pre @ d # post) = Inl (entry_exception c pre d)"
    using load_trust_domains_first_failure[of pre c d "''''" post] by blast
  with h show "SPIFFEValidator_ctor c fs config counters = Inl (entry_exception c pre d)"
    by (simp add: SPIFFEValidator_ctor_def Let_def)
next
  assume dup: "\<not> distinct (map td_name (trust_domains (customValidatorConfig config)))"
  then have ne: "trust_domains (customValidatorConfig config) \<noteq> []"
    by auto
  show "\<exists>e. SPIFFEValidator_ctor c fs config counters = Inl e"
  proof (cases "trust_bundle_map (customValidatorConfig config)")
    case (Some bundle_map)
    with ne show ?thesis
      by (simp add: SPIFFEValidator_ctor_def Let_def)
  next
    case None
    from load_trust_domains_duplicate[of "trust_domains (customValidatorConfig config)"
        new_SpiffeData c "''''"] dup
    obtain e where "load_trust_domains c new_SpiffeData ''''
                      (trust_domains (customValidatorConfig config)) = Inl e"
      by blast
    with None show ?thesis
      by (simp add: SPIFFEValidator_ctor_def Let_def)
  qed
next
  assume dup: "\<not> distinct (map td_name (trust_domains (customValidatorConfig config)))"
  from first_failure_exists[OF dup, of c]
  show "\<exists>first_pre first_d first_post.
              trust_domains (customValidatorConfig config) = first_pre @ first_d # first_post
              \<and> distinct (map td_name first_pre)
              \<and> list_all (bundle_loads c) first_pre
              \<and> (td_name first_d \<in> set (map td_name first_pre) \<or> \<not> bundle_loads c first_d)"
    by blast
qed

lemma example_config_sel:
  "trust_bundle_map (customValidatorConfig (example_config domains)) = None"
  "trust_domains (customValidatorConfig (example_config domains)) = domains"
  by (simp_all add: example_config_def)

lemma inline_domain_sel:
  "td_name (inline_domain domain pem) = domain"
  "DataSource_read example_collaborators (td_trust_bundle (inline_domain domain pem)) = Inr pem"
  by (simp_all add: inline_domain_def example_collaborators_def)

lemma example_pem:
  "PEM_X509_INFO_read_bio example_collaborators ''garbage'' = None"
  "PEM_X509_INFO_read_bio example_collaborators ''A2'' =
     Some [\<lparr>info_x509 = Some (example_cert ''ca2.a.org'' 0x10 0x06
                                (Some [uri_name ''spiffe://a.org''])),
            info_crl = None\<rparr>]"
  by (simp_all add: example_collaborators_def example_d2i_def)

text \<open>
  C8, as stated, fails: with a first entry \<open>b.org\<close> whose bundle does not parse, followed
  by two entries \<open>a.org\<close>, the constructor ends in the exception of the first entry,
  which does not name the repeated domain.
\<close>

theorem duplicate_trust_domain_counterexample:
  "\<not> distinct (map td_name
        [inline_domain ''b.org'' ''garbage'', inline_domain ''a.org'' ''A2'',
         inline_domain ''a.org'' ''A2''])
   \<and> (SPIFFEValidator_ctor example_collaborators (\<lambda>file_name. FileOpenFailed)
        (example_config
           [inline_domain ''b.org'' ''garbage'', inline_domain ''a.org'' ''A2'',
            inline_domain ''a.org'' ''A2''])
        \<lparr>fail_verify_error = 0, fail_verify_san = 0\<rparr>
        :: EnvoyException + X509 list SPIFFEValidator)
      = Inl (EnvoyException ''Failed to load trusted CA certificate for b.org'')"
proof -
  have "load_trust_domains example_collaborators (new_SpiffeData :: X509 list SpiffeData) ''''
          [inline_domain ''b.org'' ''garbage'', inline_domain ''a.org'' ''A2'',
           inline_domain ''a.org'' ''A2'']
        = Inl (EnvoyException ''Failed to load trusted CA certificate for b.org'')"
    by (simp add: inline_domain_sel example_pem new_SpiffeData_def)
  then show ?thesis
    by (simp add: SPIFFEValidator_ctor_def Let_def example_config_sel inline_domain_sel)
qed

theorem duplicate_trust_domain_aborts_witness:
  "\<not> distinct (map td_name [inline_domain ''a.org'' ''A2'', inline_domain ''a.org'' ''A2''])
   \<and> list_all (bundle_loads example_collaborators) [inline_domain ''a.org'' ''A2'']
   \<and> (SPIFFEValidator_ctor example_collaborators (\<lambda>file_name. FileOpenFailed)
        (example_config [inline_domain ''a.org'' ''A2'', inline_domain ''a.org'' ''A2''])
        \<lparr>fail_verify_error = 0, fail_verify_san = 0\<rparr>
        :: EnvoyException + X509 list SPIFFEValidator)
      = Inl (EnvoyException ''Multiple trust bundles are given for one trust domain for a.org'')
   \<and> \<not> bundle_loads example_collaborators (inline_domain ''b.org'' ''garbage'')
   \<and> (SPIFFEValidator_ctor example_collaborators (\<lambda>file_name. FileOpenFailed)
        (example_config
           [inline_domain ''b.org'' ''garbage'', inline_domain ''a.org'' ''A2'',
            inline_domain ''a.org'' ''A2''])
        \<lparr>fail_verify_error = 0, fail_verify_san = 0\<rparr>
        :: EnvoyException + X509 list SPIFFEValidator)
      = Inl (EnvoyException ''Failed to load trusted CA certificate for b.org'')"
proof -
  let ?a = "inline_domain ''a.org'' ''A2''"
  let ?b = "inline_domain ''b.org'' ''garbage''"
  let ?counters = "\<lparr>fail_verify_error = 0, fail_verify_san = 0\<rparr>"
  let ?fs = "\<lambda>file_name :: string. FileOpenFailed"
  have la: "bundle_loads example_collaborators ?a"
    by (simp add: bundle_loads_def inline_domain_sel example_pem)
  have lb: "\<not> bundle_loads example_collaborators ?b"
    by (simp add: bundle_loads_def inline_domain_sel example_pem)
  have n: "\<not> distinct (map td_name [?a, ?a])"
    by simp
  have h1: "trust_bundle_map (customValidatorConfig (example_config [?a, ?a])) = None
        \<and> trust_domains (customValidatorConfig (example_config [?a, ?a])) = [?a] @ ?a # []
        \<and> distinct (map td_name [?a])
        \<and> list_all (bundle_loads example_collaborators) [?a]
        \<and> (td_name ?a \<in> set (map td_name [?a]) \<or> \<not> bundle_loads example_collaborators ?a)"
    using la by (simp add: example_config_sel)
  have 1: "(SPIFFEValidator_ctor example_collaborators ?fs (example_config [?a, ?a]) ?counters
             :: EnvoyException + X509 list SPIFFEValidator)
           = Inl (EnvoyException ''Multiple trust bundles are given for one trust domain for a.org'')"
    using duplicate_trust_domain_aborts
      [where config = "example_config [?a, ?a]" and c = example_collaborators and pre = "[?a]"
         and d = ?a and post = "[]" and fs = ?fs and counters = ?counters,
       THEN conjunct2, THEN conjunct1, THEN mp, OF h1]
    by (simp add: entry_exception_def inline_domain_sel)
  have h2: "trust_bundle_map (customValidatorConfig (example_config [?b, ?a, ?a])) = None
        \<and> trust_domains (customValidatorConfig (example_config [?b, ?a, ?a])) = [] @ ?b # [?a, ?a]
        \<and> distinct (map td_name [])
        \<and> list_all (bundle_loads example_collaborators) []
        \<and> (td_name ?b \<in> set (map td_name []) \<or> \<not> bundle_loads example_collaborators ?b)"
    using lb by (simp add: example_config_sel)
  have 2: "(SPIFFEValidator_ctor example_collaborators ?fs (example_config [?b, ?a, ?a]) ?counters
             :: EnvoyException + X509 list SPIFFEValidator)
           = Inl (EnvoyException ''Failed to load trusted CA certificate for b.org'')"
    using duplicate_trust_domain_aborts
      [where config = "example_config [?b, ?a, ?a]" and c = example_collaborators and pre = "[]"
         and d = ?b and post = "[?a, ?a]" and fs = ?fs and counters = ?counters,
       THEN conjunct2, THEN conjunct1, THEN mp, OF h2]
    by (simp add: entry_exception_def inline_domain_sel)
  show ?thesis
    using n la lb 1 2 by simp
qed

end
